theory Spec2Isabelle
  imports Main
begin

section \<open>Public issue collaboration views (apiserver/plane/space/views/issue.py)\<close>

text \<open>
  A shallow embedding of the view classes of \<^verbatim>\<open>plane/space/views/issue.py\<close>.
  The database is a record of tables (one list of rows per Django model), every handler
  takes the database and returns its outcome together with the database it leaves behind.
  A raised exception is the \<open>Inl\<close> branch of the outcome; a returned
  \<^verbatim>\<open>Response\<close> is the \<open>Inr\<close> branch.
\<close>

subsection \<open>Values\<close>

type_synonym uuid = nat

text \<open>
  JSON values of request payloads and serialized documents: integers, booleans and
  strings. \<open>JUuid u\<close> is the string \<^verbatim>\<open>str(u)\<close> of a primary key, \<open>JStrInt n\<close>
  the string \<^verbatim>\<open>str(n)\<close> of an integer, \<open>JStr s\<close> any other string.
  \<^verbatim>\<open>json.dumps(d)\<close> is represented by the document \<open>d\<close> it encodes.
\<close>

datatype jval = JInt int | JStr string | JStrInt int | JUuid uuid | JBool bool

type_synonym payload = "(string \<times> jval) list"

datatype model =
  MProject | MProjectDeployBoard | MIssue | MIssueComment | MIssueReaction
  | MCommentReaction | MIssueVote | MProjectPublicMember

datatype exn =
  DoesNotExist model
  | MultipleObjectsReturned model
  | ValueError
  | DataError
  | AttributeError

subsection \<open>Rows\<close>

record Project =
  p_id :: uuid
  p_workspace_slug :: string

record ProjectDeployBoard =
  b_workspace_slug :: string
  b_project_id :: uuid
  comments :: bool
  reactions :: bool
  votes :: bool

record Issue =
  i_id :: uuid
  i_workspace_slug :: string
  i_project_id :: uuid
  i_is_draft :: bool
  i_archived_at :: "nat option"
  i_parent :: "uuid option"

record IssueLink =
  l_id :: uuid
  l_issue :: uuid

record IssueAttachment =
  a_id :: uuid
  a_issue :: uuid

record CycleIssue =
  ci_issue :: uuid
  ci_cycle_id :: uuid

record IssueComment =
  c_id :: uuid
  c_workspace_slug :: string
  c_project_id :: uuid
  c_issue_id :: uuid
  c_actor :: uuid
  c_access :: string
  c_comment_html :: string
  c_created_at :: nat

record IssueReaction =
  ir_id :: uuid
  ir_workspace_slug :: string
  ir_project_id :: uuid
  ir_issue_id :: uuid
  ir_actor :: uuid
  ir_reaction :: string
  ir_created_at :: nat

record CommentReaction =
  cr_id :: uuid
  cr_workspace_slug :: string
  cr_project_id :: uuid
  cr_comment_id :: uuid
  cr_actor :: uuid
  cr_reaction :: string
  cr_created_at :: nat

record IssueVote =
  v_id :: uuid
  v_workspace_slug :: string
  v_project_id :: uuid
  v_issue_id :: uuid
  v_actor :: uuid
  vote :: int

text \<open>
  A row of the issue listing: the issue and its annotations. An annotation the queryset
  never attached is \<open>None\<close>; \<open>cycle_id = Some None\<close> is an attached NULL.
\<close>

record issue_row =
  row_issue :: Issue
  cycle_id :: "uuid option option"
  link_count :: "nat option"
  attachment_count :: "nat option"
  sub_issues_count :: "nat option"

record ProjectMember =
  pm_workspace_slug :: string
  pm_project_id :: uuid
  pm_member :: uuid
  pm_is_active :: bool

record ProjectPublicMember =
  ppm_id :: uuid
  ppm_workspace_slug :: string
  ppm_project_id :: uuid
  ppm_member :: uuid

subsection \<open>Activity events and the order of side effects\<close>

text \<open>
  The keyword arguments of \<^verbatim>\<open>issue_activity.delay\<close>. The \<^verbatim>\<open>str(...)\<close> of an
  identifier is represented by the identifier.
\<close>

record activity_event =
  ev_type :: string
  ev_requested_data :: "payload option"
  ev_actor_id :: uuid
  ev_issue_id :: "uuid option"
  ev_project_id :: uuid
  ev_current_instance :: "payload option"
  ev_epoch :: nat

text \<open>
  Every write to a table and every emitted event is appended to \<open>effects\<close>, so that
  the order in which a handler performs them can be read off the final state.
\<close>

datatype effect =
  Emit activity_event
  | Insert model uuid
  | Update model uuid
  | Delete model uuid

record database =
  Project_objects :: "Project list"
  ProjectDeployBoard_objects :: "ProjectDeployBoard list"
  Issue_objects :: "Issue list"
  IssueLink_objects :: "IssueLink list"
  IssueAttachment_objects :: "IssueAttachment list"
  CycleIssue_objects :: "CycleIssue list"
  IssueComment_objects :: "IssueComment list"
  IssueReaction_objects :: "IssueReaction list"
  CommentReaction_objects :: "CommentReaction list"
  IssueVote_objects :: "IssueVote list"
  ProjectMember_objects :: "ProjectMember list"
  ProjectPublicMember_objects :: "ProjectPublicMember list"
  next_uuid :: uuid
  effects :: "effect list"

subsection \<open>Requests and responses\<close>

text \<open>
  \<open>user\<close> is \<^verbatim>\<open>request.user.id\<close> of an authenticated request, \<open>data\<close> is
  \<^verbatim>\<open>request.data\<close>, \<open>now\<close> is \<^verbatim>\<open>int(timezone.now().timestamp())\<close> at the
  time the request is handled.
\<close>

record request =
  user :: uuid
  data :: payload
  now :: nat

datatype body =
  NoBody
  | ErrorBody string
  | SerializerErrors
  | Data payload
  | Page "issue_row list"

datatype response = Response body nat

definition HTTP_200_OK :: nat where "HTTP_200_OK = 200"
definition HTTP_201_CREATED :: nat where "HTTP_201_CREATED = 201"
definition HTTP_204_NO_CONTENT :: nat where "HTTP_204_NO_CONTENT = 204"
definition HTTP_400_BAD_REQUEST :: nat where "HTTP_400_BAD_REQUEST = 400"
definition HTTP_404_NOT_FOUND :: nat where "HTTP_404_NOT_FOUND = 404"

type_synonym outcome = "(exn + response) \<times> database"

subsection \<open>Queries\<close>

text \<open>
  \<^verbatim>\<open>Model.objects.get(**kwargs)\<close>: the only row that matches, \<^verbatim>\<open>DoesNotExist\<close>
  when none does, \<^verbatim>\<open>MultipleObjectsReturned\<close> when several do.
\<close>

definition objects_get :: "model \<Rightarrow> ('a \<Rightarrow> bool) \<Rightarrow> 'a list \<Rightarrow> exn + 'a" where
  "objects_get m P rows =
     (case filter P rows of
        [] \<Rightarrow> Inl (DoesNotExist m)
      | [r] \<Rightarrow> Inr r
      | _ \<Rightarrow> Inl (MultipleObjectsReturned m))"

definition ProjectDeployBoard_get :: "string \<Rightarrow> uuid \<Rightarrow> database \<Rightarrow> exn + ProjectDeployBoard" where
  "ProjectDeployBoard_get slug project_id db =
     objects_get MProjectDeployBoard
       (\<lambda>b. b_workspace_slug b = slug \<and> b_project_id b = project_id)
       (ProjectDeployBoard_objects db)"

text \<open>
  Modelled from the spec: the model classes (plane.db.models) are not among the sources.
  Every row is scoped to a (workspace, project) pair; the workspace of a new row is the
  workspace of its project, read through the project when the row is saved.
\<close>

definition project_workspace :: "uuid \<Rightarrow> database \<Rightarrow> exn + string" where
  "project_workspace project_id db =
     (case objects_get MProject (\<lambda>p. p_id p = project_id) (Project_objects db) of
        Inl e \<Rightarrow> Inl e
      | Inr p \<Rightarrow> Inr (p_workspace_slug p))"

definition issue_activity_delay :: "activity_event \<Rightarrow> database \<Rightarrow> database" where
  "issue_activity_delay ev db = db\<lparr>effects := effects db @ [Emit ev]\<rparr>"

subsection \<open>Visitor registration\<close>

definition ProjectPublicMember_get_or_create ::
  "uuid \<Rightarrow> uuid \<Rightarrow> database \<Rightarrow> (exn + ProjectPublicMember) \<times> database" where
  "ProjectPublicMember_get_or_create project_id member db =
     (case objects_get MProjectPublicMember
             (\<lambda>m. ppm_project_id m = project_id \<and> ppm_member m = member)
             (ProjectPublicMember_objects db) of
        Inr m \<Rightarrow> (Inr m, db)
      | Inl (MultipleObjectsReturned x) \<Rightarrow> (Inl (MultipleObjectsReturned x), db)
      | Inl _ \<Rightarrow>
          (case project_workspace project_id db of
             Inl e \<Rightarrow> (Inl e, db)
           | Inr ws \<Rightarrow>
               (let m = \<lparr>ppm_id = next_uuid db, ppm_workspace_slug = ws,
                         ppm_project_id = project_id, ppm_member = member\<rparr>
                in (Inr m,
                    db\<lparr>ProjectPublicMember_objects := ProjectPublicMember_objects db @ [m],
                       next_uuid := Suc (next_uuid db),
                       effects := effects db @ [Insert MProjectPublicMember (ppm_id m)]\<rparr>))))"

text \<open>
  The block under the comment \<^verbatim>\<open># Add the user for workspace tracking\<close>, which the
  four create handlers repeat word for word:
  \<^verbatim>\<open>if not ProjectMember.objects.filter(project_id=project_id, member=request.user,
  is_active=True).exists(): ProjectPublicMember.objects.get_or_create(...)\<close>.
\<close>

definition is_active_member :: "uuid \<Rightarrow> uuid \<Rightarrow> database \<Rightarrow> bool" where
  "is_active_member project_id member db =
     (filter (\<lambda>pm. pm_project_id pm = project_id \<and> pm_member pm = member \<and> pm_is_active pm)
        (ProjectMember_objects db) \<noteq> [])"

definition add_user_for_workspace_tracking ::
  "uuid \<Rightarrow> uuid \<Rightarrow> database \<Rightarrow> (exn + unit) \<times> database" where
  "add_user_for_workspace_tracking project_id member db =
     (if \<not> is_active_member project_id member db
      then (case ProjectPublicMember_get_or_create project_id member db of
              (Inl e, db') \<Rightarrow> (Inl e, db')
            | (Inr _, db') \<Rightarrow> (Inr (), db'))
      else (Inr (), db))"

subsection \<open>IssueVotePublicViewSet\<close>

text \<open>
  Modelled from the spec: IssueVoteSerializer (plane.app.serializers) is not among the
  sources; the representation of a vote carries its key and its value.
\<close>

definition IssueVoteSerializer_data :: "IssueVote \<Rightarrow> payload" where
  "IssueVoteSerializer_data v =
     [(''id'', JUuid (v_id v)), (''vote'', JInt (vote v)), (''actor'', JUuid (v_actor v)),
      (''issue'', JUuid (v_issue_id v)), (''project'', JUuid (v_project_id v)),
      (''workspace'', JStr (v_workspace_slug v))]"

text \<open>
  The value that \<^verbatim>\<open>issue_vote.save()\<close> writes to the integer column
  \<^verbatim>\<open>vote\<close>. The field prepares what the handler assigned with Python's
  \<^verbatim>\<open>int(value)\<close>: an integer is itself, a boolean is 0 or 1, a string that spells an
  integer is that integer, and any other string raises \<^verbatim>\<open>ValueError\<close>. The column
  is a 32-bit signed integer of the PostgreSQL backend, which refuses a value outside
  its range with \<^verbatim>\<open>DataError\<close>. When the save raises, the row stays as it was.
\<close>

definition int4_min :: int where "int4_min = - 2147483648"

definition int4_max :: int where "int4_max = 2147483647"

fun python_int :: "jval \<Rightarrow> exn + int" where
  "python_int (JInt n) = Inr n"
| "python_int (JBool b) = Inr (if b then 1 else 0)"
| "python_int (JStrInt n) = Inr n"
| "python_int (JStr s) = Inl ValueError"
| "python_int (JUuid u) = Inl ValueError"

definition IntegerField_to_python :: "jval \<Rightarrow> exn + int" where
  "IntegerField_to_python x =
     (case python_int x of
        Inl e \<Rightarrow> Inl e
      | Inr n \<Rightarrow> if int4_min \<le> n \<and> n \<le> int4_max then Inr n else Inl DataError)"

text \<open>
  \<^verbatim>\<open>IssueVote.objects.get_or_create(actor_id=.., project_id=.., issue_id=..)\<close>. A new
  row holds the column default of \<^verbatim>\<open>vote\<close> until the handler assigns it (1, the
  fallback the handler itself uses).
\<close>

definition IssueVote_get_or_create ::
  "uuid \<Rightarrow> uuid \<Rightarrow> uuid \<Rightarrow> database \<Rightarrow> (exn + IssueVote) \<times> database" where
  "IssueVote_get_or_create actor project_id issue_id db =
     (case objects_get MIssueVote
             (\<lambda>v. v_actor v = actor \<and> v_project_id v = project_id \<and> v_issue_id v = issue_id)
             (IssueVote_objects db) of
        Inr v \<Rightarrow> (Inr v, db)
      | Inl (MultipleObjectsReturned x) \<Rightarrow> (Inl (MultipleObjectsReturned x), db)
      | Inl _ \<Rightarrow>
          (case project_workspace project_id db of
             Inl e \<Rightarrow> (Inl e, db)
           | Inr ws \<Rightarrow>
               (let v = \<lparr>v_id = next_uuid db, v_workspace_slug = ws,
                         v_project_id = project_id, v_issue_id = issue_id,
                         v_actor = actor, vote = 1\<rparr>
                in (Inr v,
                    db\<lparr>IssueVote_objects := IssueVote_objects db @ [v],
                       next_uuid := Suc (next_uuid db),
                       effects := effects db @ [Insert MIssueVote (v_id v)]\<rparr>))))"

definition IssueVote_save :: "IssueVote \<Rightarrow> database \<Rightarrow> database" where
  "IssueVote_save v db =
     db\<lparr>IssueVote_objects := map (\<lambda>r. if v_id r = v_id v then v else r) (IssueVote_objects db),
        effects := effects db @ [Update MIssueVote (v_id v)]\<rparr>"

definition IssueVote_delete :: "IssueVote \<Rightarrow> database \<Rightarrow> database" where
  "IssueVote_delete v db =
     db\<lparr>IssueVote_objects := filter (\<lambda>r. v_id r \<noteq> v_id v) (IssueVote_objects db),
        effects := effects db @ [Delete MIssueVote (v_id v)]\<rparr>"

definition IssueVotePublicViewSet_get_queryset ::
  "string \<Rightarrow> uuid \<Rightarrow> uuid \<Rightarrow> database \<Rightarrow> exn + IssueVote list" where
  "IssueVotePublicViewSet_get_queryset slug project_id issue_id db =
     (case ProjectDeployBoard_get slug project_id db of
        Inl (DoesNotExist x) \<Rightarrow> Inr []
      | Inl e \<Rightarrow> Inl e
      | Inr project_deploy_board \<Rightarrow>
          (if votes project_deploy_board
           then Inr (filter (\<lambda>v. v_project_id v = project_id)
                      (filter (\<lambda>v. v_workspace_slug v = slug)
                        (filter (\<lambda>v. v_issue_id v = issue_id) (IssueVote_objects db))))
           else Inr []))"

definition IssueVotePublicViewSet_create ::
  "request \<Rightarrow> string \<Rightarrow> uuid \<Rightarrow> uuid \<Rightarrow> database \<Rightarrow> outcome" where
  "IssueVotePublicViewSet_create request slug project_id issue_id db =
     (case IssueVote_get_or_create (user request) project_id issue_id db of
        (Inl e, db1) \<Rightarrow> (Inl e, db1)
      | (Inr issue_vote, db1) \<Rightarrow>
          (case add_user_for_workspace_tracking project_id (user request) db1 of
             (Inl e, db2) \<Rightarrow> (Inl e, db2)
           | (Inr _, db2) \<Rightarrow>
               (case IntegerField_to_python
                       (case map_of (data request) ''vote'' of None \<Rightarrow> JInt 1 | Some x \<Rightarrow> x) of
                  Inl e \<Rightarrow> (Inl e, db2)
                | Inr n \<Rightarrow>
                    (let issue_vote = issue_vote\<lparr>vote := n\<rparr>;
                         db3 = IssueVote_save issue_vote db2;
                         db4 = issue_activity_delay
                                 \<lparr>ev_type = ''issue_vote.activity.created'',
                                  ev_requested_data = Some (data request),
                                  ev_actor_id = user request,
                                  ev_issue_id = Some issue_id,
                                  ev_project_id = project_id,
                                  ev_current_instance = None,
                                  ev_epoch = now request\<rparr> db3
                     in (Inr (Response (Data (IssueVoteSerializer_data issue_vote))
                                HTTP_201_CREATED), db4)))))"

definition IssueVotePublicViewSet_destroy ::
  "request \<Rightarrow> string \<Rightarrow> uuid \<Rightarrow> uuid \<Rightarrow> database \<Rightarrow> outcome" where
  "IssueVotePublicViewSet_destroy request slug project_id issue_id db =
     (case objects_get MIssueVote
             (\<lambda>v. v_workspace_slug v = slug \<and> v_project_id v = project_id
                  \<and> v_issue_id v = issue_id \<and> v_actor v = user request)
             (IssueVote_objects db) of
        Inl e \<Rightarrow> (Inl e, db)
      | Inr issue_vote \<Rightarrow>
          (let db1 = issue_activity_delay
                       \<lparr>ev_type = ''issue_vote.activity.deleted'',
                        ev_requested_data = None,
                        ev_actor_id = user request,
                        ev_issue_id = Some issue_id,
                        ev_project_id = project_id,
                        ev_current_instance =
                          Some [(''vote'', JStrInt (vote issue_vote)),
                                (''identifier'', JUuid (v_id issue_vote))],
                        ev_epoch = now request\<rparr> db;
               db2 = IssueVote_delete issue_vote db1
           in (Inr (Response NoBody HTTP_204_NO_CONTENT), db2)))"

subsection \<open>IssueCommentPublicViewSet\<close>

text \<open>
  Modelled from the spec: IssueCommentSerializer (plane.app.serializers) is not among the
  sources. A comment has a mutable body; its representation carries every column, the
  identifier included. Whether a payload is valid is left to the caller of the handlers
  (the argument \<open>is_valid\<close>); a payload without a body creates a comment with the
  empty body, and a partial update changes the supplied body only.
\<close>

definition IssueCommentSerializer_data :: "IssueComment \<Rightarrow> payload" where
  "IssueCommentSerializer_data c =
     [(''id'', JUuid (c_id c)), (''comment_html'', JStr (c_comment_html c)),
      (''access'', JStr (c_access c)), (''actor'', JUuid (c_actor c)),
      (''issue'', JUuid (c_issue_id c)), (''project'', JUuid (c_project_id c)),
      (''workspace'', JStr (c_workspace_slug c)), (''created_at'', JInt (int (c_created_at c)))]"

definition comment_html_of :: "payload \<Rightarrow> string \<Rightarrow> string" where
  "comment_html_of d dflt = (case map_of d ''comment_html'' of Some (JStr s) \<Rightarrow> s | _ \<Rightarrow> dflt)"

definition IssueCommentSerializer_update :: "IssueComment \<Rightarrow> payload \<Rightarrow> IssueComment" where
  "IssueCommentSerializer_update instance d =
     instance\<lparr>c_comment_html := comment_html_of d (c_comment_html instance)\<rparr>"

definition IssueComment_create ::
  "payload \<Rightarrow> uuid \<Rightarrow> uuid \<Rightarrow> uuid \<Rightarrow> string \<Rightarrow> nat \<Rightarrow> database
     \<Rightarrow> (exn + IssueComment) \<times> database" where
  "IssueComment_create d project_id issue_id actor access created_at db =
     (case project_workspace project_id db of
        Inl e \<Rightarrow> (Inl e, db)
      | Inr ws \<Rightarrow>
          (let c = \<lparr>c_id = next_uuid db, c_workspace_slug = ws, c_project_id = project_id,
                    c_issue_id = issue_id, c_actor = actor, c_access = access,
                    c_comment_html = comment_html_of d [], c_created_at = created_at\<rparr>
           in (Inr c,
               db\<lparr>IssueComment_objects := IssueComment_objects db @ [c],
                  next_uuid := Suc (next_uuid db),
                  effects := effects db @ [Insert MIssueComment (c_id c)]\<rparr>)))"

definition IssueComment_save :: "IssueComment \<Rightarrow> database \<Rightarrow> database" where
  "IssueComment_save c db =
     db\<lparr>IssueComment_objects :=
          map (\<lambda>r. if c_id r = c_id c then c else r) (IssueComment_objects db),
        effects := effects db @ [Update MIssueComment (c_id c)]\<rparr>"

definition IssueComment_delete :: "IssueComment \<Rightarrow> database \<Rightarrow> database" where
  "IssueComment_delete c db =
     db\<lparr>IssueComment_objects := filter (\<lambda>r. c_id r \<noteq> c_id c) (IssueComment_objects db),
        effects := effects db @ [Delete MIssueComment (c_id c)]\<rparr>"

text \<open>
  \<open>user_id\<close> is \<^verbatim>\<open>self.request.user.id\<close>, which an anonymous request lacks;
  \<open>filter_queryset\<close> is the filter backend of the base view set (over
  \<^verbatim>\<open>filterset_fields\<close>), which is not among the sources. Each comment comes with
  its annotation \<^verbatim>\<open>is_member\<close>.
\<close>

definition IssueCommentPublicViewSet_get_queryset ::
  "((IssueComment \<times> bool) list \<Rightarrow> (IssueComment \<times> bool) list) \<Rightarrow> uuid option
     \<Rightarrow> string \<Rightarrow> uuid \<Rightarrow> uuid \<Rightarrow> database \<Rightarrow> exn + (IssueComment \<times> bool) list" where
  "IssueCommentPublicViewSet_get_queryset filter_queryset user_id slug project_id issue_id db =
     (case ProjectDeployBoard_get slug project_id db of
        Inl (DoesNotExist x) \<Rightarrow> Inr []
      | Inl e \<Rightarrow> Inl e
      | Inr project_deploy_board \<Rightarrow>
          (if comments project_deploy_board
           then Inr (sort_key (\<lambda>r. c_created_at (fst r))
                  (filter_queryset
                    (remdups
                      (map (\<lambda>c. (c, filter (\<lambda>pm. pm_workspace_slug pm = slug
                                                \<and> pm_project_id pm = project_id
                                                \<and> Some (pm_member pm) = user_id
                                                \<and> pm_is_active pm)
                                      (ProjectMember_objects db) \<noteq> []))
                        (filter (\<lambda>c. c_access c = ''EXTERNAL'')
                          (filter (\<lambda>c. c_issue_id c = issue_id)
                            (filter (\<lambda>c. c_workspace_slug c = slug)
                              (IssueComment_objects db))))))))
           else Inr []))"

definition IssueCommentPublicViewSet_create ::
  "(payload \<Rightarrow> bool) \<Rightarrow> request \<Rightarrow> string \<Rightarrow> uuid \<Rightarrow> uuid \<Rightarrow> database \<Rightarrow> outcome" where
  "IssueCommentPublicViewSet_create is_valid request slug project_id issue_id db =
     (case ProjectDeployBoard_get slug project_id db of
        Inl e \<Rightarrow> (Inl e, db)
      | Inr project_deploy_board \<Rightarrow>
          (if \<not> comments project_deploy_board
           then (Inr (Response (ErrorBody ''Comments are not enabled for this project'')
                        HTTP_400_BAD_REQUEST), db)
           else if is_valid (data request)
           then (case IssueComment_create (data request) project_id issue_id (user request)
                        ''EXTERNAL'' (now request) db of
                   (Inl e, db1) \<Rightarrow> (Inl e, db1)
                 | (Inr comment, db1) \<Rightarrow>
                     (let db2 = issue_activity_delay
                                  \<lparr>ev_type = ''comment.activity.created'',
                                   ev_requested_data = Some (IssueCommentSerializer_data comment),
                                   ev_actor_id = user request,
                                   ev_issue_id = Some issue_id,
                                   ev_project_id = project_id,
                                   ev_current_instance = None,
                                   ev_epoch = now request\<rparr> db1
                      in (case add_user_for_workspace_tracking project_id (user request) db2 of
                            (Inl e, db3) \<Rightarrow> (Inl e, db3)
                          | (Inr _, db3) \<Rightarrow>
                              (Inr (Response (Data (IssueCommentSerializer_data comment))
                                      HTTP_201_CREATED), db3))))
           else (Inr (Response SerializerErrors HTTP_400_BAD_REQUEST), db)))"

text \<open>
  \<^verbatim>\<open>serializer.save()\<close> of a serializer built on an instance assigns the validated
  fields to that instance and saves it: after it, the variable \<^verbatim>\<open>comment\<close> of the
  handler denotes the updated object. The second binding of \<open>comment\<close> below is that
  mutation; \<^verbatim>\<open>IssueCommentSerializer(comment).data\<close> is read after it.
\<close>

definition IssueCommentPublicViewSet_partial_update ::
  "(payload \<Rightarrow> bool) \<Rightarrow> request \<Rightarrow> string \<Rightarrow> uuid \<Rightarrow> uuid \<Rightarrow> uuid \<Rightarrow> database
     \<Rightarrow> outcome" where
  "IssueCommentPublicViewSet_partial_update is_valid request slug project_id issue_id pk db =
     (case ProjectDeployBoard_get slug project_id db of
        Inl e \<Rightarrow> (Inl e, db)
      | Inr project_deploy_board \<Rightarrow>
          (if \<not> comments project_deploy_board
           then (Inr (Response (ErrorBody ''Comments are not enabled for this project'')
                        HTTP_400_BAD_REQUEST), db)
           else (case objects_get MIssueComment
                        (\<lambda>c. c_workspace_slug c = slug \<and> c_id c = pk \<and> c_actor c = user request)
                        (IssueComment_objects db) of
                   Inl e \<Rightarrow> (Inl e, db)
                 | Inr comment \<Rightarrow>
                     (if is_valid (data request)
                      then (let comment = IssueCommentSerializer_update comment (data request);
                                db1 = IssueComment_save comment db;
                                db2 = issue_activity_delay
                                        \<lparr>ev_type = ''comment.activity.updated'',
                                         ev_requested_data = Some (data request),
                                         ev_actor_id = user request,
                                         ev_issue_id = Some issue_id,
                                         ev_project_id = project_id,
                                         ev_current_instance =
                                           Some (IssueCommentSerializer_data comment),
                                         ev_epoch = now request\<rparr> db1
                            in (Inr (Response (Data (IssueCommentSerializer_data comment))
                                       HTTP_200_OK), db2))
                      else (Inr (Response SerializerErrors HTTP_400_BAD_REQUEST), db)))))"

definition IssueCommentPublicViewSet_destroy ::
  "request \<Rightarrow> string \<Rightarrow> uuid \<Rightarrow> uuid \<Rightarrow> uuid \<Rightarrow> database \<Rightarrow> outcome" where
  "IssueCommentPublicViewSet_destroy request slug project_id issue_id pk db =
     (case ProjectDeployBoard_get slug project_id db of
        Inl e \<Rightarrow> (Inl e, db)
      | Inr project_deploy_board \<Rightarrow>
          (if \<not> comments project_deploy_board
           then (Inr (Response (ErrorBody ''Comments are not enabled for this project'')
                        HTTP_400_BAD_REQUEST), db)
           else (case objects_get MIssueComment
                        (\<lambda>c. c_workspace_slug c = slug \<and> c_id c = pk
                             \<and> c_project_id c = project_id \<and> c_actor c = user request)
                        (IssueComment_objects db) of
                   Inl e \<Rightarrow> (Inl e, db)
                 | Inr comment \<Rightarrow>
                     (let db1 = issue_activity_delay
                                  \<lparr>ev_type = ''comment.activity.deleted'',
                                   ev_requested_data = Some [(''comment_id'', JUuid pk)],
                                   ev_actor_id = user request,
                                   ev_issue_id = Some issue_id,
                                   ev_project_id = project_id,
                                   ev_current_instance =
                                     Some (IssueCommentSerializer_data comment),
                                   ev_epoch = now request\<rparr> db;
                          db2 = IssueComment_delete comment db1
                      in (Inr (Response NoBody HTTP_204_NO_CONTENT), db2)))))"

subsection \<open>IssueReactionPublicViewSet\<close>

text \<open>
  Modelled from the spec: IssueReactionSerializer and CommentReactionSerializer
  (plane.app.serializers) are not among the sources. A reaction is keyed by its reaction
  code, which the payload supplies under \<^verbatim>\<open>reaction\<close>; whether a payload is valid is
  left to the caller of the handlers (the argument \<open>is_valid\<close>).
\<close>

definition reaction_of :: "payload \<Rightarrow> string" where
  "reaction_of d = (case map_of d ''reaction'' of Some (JStr s) \<Rightarrow> s | _ \<Rightarrow> [])"

definition IssueReactionSerializer_data :: "IssueReaction \<Rightarrow> payload" where
  "IssueReactionSerializer_data r =
     [(''id'', JUuid (ir_id r)), (''reaction'', JStr (ir_reaction r)),
      (''actor'', JUuid (ir_actor r)), (''issue'', JUuid (ir_issue_id r)),
      (''project'', JUuid (ir_project_id r)), (''workspace'', JStr (ir_workspace_slug r))]"

definition IssueReaction_create ::
  "payload \<Rightarrow> uuid \<Rightarrow> uuid \<Rightarrow> uuid \<Rightarrow> nat \<Rightarrow> database
     \<Rightarrow> (exn + IssueReaction) \<times> database" where
  "IssueReaction_create d project_id issue_id actor created_at db =
     (case project_workspace project_id db of
        Inl e \<Rightarrow> (Inl e, db)
      | Inr ws \<Rightarrow>
          (let r = \<lparr>ir_id = next_uuid db, ir_workspace_slug = ws, ir_project_id = project_id,
                    ir_issue_id = issue_id, ir_actor = actor, ir_reaction = reaction_of d,
                    ir_created_at = created_at\<rparr>
           in (Inr r,
               db\<lparr>IssueReaction_objects := IssueReaction_objects db @ [r],
                  next_uuid := Suc (next_uuid db),
                  effects := effects db @ [Insert MIssueReaction (ir_id r)]\<rparr>)))"

definition IssueReaction_delete :: "IssueReaction \<Rightarrow> database \<Rightarrow> database" where
  "IssueReaction_delete r db =
     db\<lparr>IssueReaction_objects := filter (\<lambda>x. ir_id x \<noteq> ir_id r) (IssueReaction_objects db),
        effects := effects db @ [Delete MIssueReaction (ir_id r)]\<rparr>"

definition IssueReactionPublicViewSet_get_queryset ::
  "string \<Rightarrow> uuid \<Rightarrow> uuid \<Rightarrow> database \<Rightarrow> exn + IssueReaction list" where
  "IssueReactionPublicViewSet_get_queryset slug project_id issue_id db =
     (case ProjectDeployBoard_get slug project_id db of
        Inl (DoesNotExist x) \<Rightarrow> Inr []
      | Inl e \<Rightarrow> Inl e
      | Inr project_deploy_board \<Rightarrow>
          (if reactions project_deploy_board
           then Inr (remdups (rev (sort_key ir_created_at
                  (filter (\<lambda>r. ir_issue_id r = issue_id)
                    (filter (\<lambda>r. ir_project_id r = project_id)
                      (filter (\<lambda>r. ir_workspace_slug r = slug) (IssueReaction_objects db)))))))
           else Inr []))"

definition IssueReactionPublicViewSet_create ::
  "(payload \<Rightarrow> bool) \<Rightarrow> request \<Rightarrow> string \<Rightarrow> uuid \<Rightarrow> uuid \<Rightarrow> database \<Rightarrow> outcome" where
  "IssueReactionPublicViewSet_create is_valid request slug project_id issue_id db =
     (case ProjectDeployBoard_get slug project_id db of
        Inl e \<Rightarrow> (Inl e, db)
      | Inr project_deploy_board \<Rightarrow>
          (if \<not> reactions project_deploy_board
           then (Inr (Response (ErrorBody ''Reactions are not enabled for this project board'')
                        HTTP_400_BAD_REQUEST), db)
           else if is_valid (data request)
           then (case IssueReaction_create (data request) project_id issue_id (user request)
                        (now request) db of
                   (Inl e, db1) \<Rightarrow> (Inl e, db1)
                 | (Inr issue_reaction, db1) \<Rightarrow>
                     (case add_user_for_workspace_tracking project_id (user request) db1 of
                        (Inl e, db2) \<Rightarrow> (Inl e, db2)
                      | (Inr _, db2) \<Rightarrow>
                          (let db3 = issue_activity_delay
                                       \<lparr>ev_type = ''issue_reaction.activity.created'',
                                        ev_requested_data = Some (data request),
                                        ev_actor_id = user request,
                                        ev_issue_id = Some issue_id,
                                        ev_project_id = project_id,
                                        ev_current_instance = None,
                                        ev_epoch = now request\<rparr> db2
                           in (Inr (Response (Data (IssueReactionSerializer_data issue_reaction))
                                      HTTP_201_CREATED), db3))))
           else (Inr (Response SerializerErrors HTTP_400_BAD_REQUEST), db)))"

definition IssueReactionPublicViewSet_destroy ::
  "request \<Rightarrow> string \<Rightarrow> uuid \<Rightarrow> uuid \<Rightarrow> string \<Rightarrow> database \<Rightarrow> outcome" where
  "IssueReactionPublicViewSet_destroy request slug project_id issue_id reaction_code db =
     (case ProjectDeployBoard_get slug project_id db of
        Inl e \<Rightarrow> (Inl e, db)
      | Inr project_deploy_board \<Rightarrow>
          (if \<not> reactions project_deploy_board
           then (Inr (Response (ErrorBody ''Reactions are not enabled for this project board'')
                        HTTP_400_BAD_REQUEST), db)
           else (case objects_get MIssueReaction
                        (\<lambda>r. ir_workspace_slug r = slug \<and> ir_issue_id r = issue_id
                             \<and> ir_reaction r = reaction_code \<and> ir_actor r = user request)
                        (IssueReaction_objects db) of
                   Inl e \<Rightarrow> (Inl e, db)
                 | Inr issue_reaction \<Rightarrow>
                     (let db1 = issue_activity_delay
                                  \<lparr>ev_type = ''issue_reaction.activity.deleted'',
                                   ev_requested_data = None,
                                   ev_actor_id = user request,
                                   ev_issue_id = Some issue_id,
                                   ev_project_id = project_id,
                                   ev_current_instance =
                                     Some [(''reaction'', JStr reaction_code),
                                           (''identifier'', JUuid (ir_id issue_reaction))],
                                   ev_epoch = now request\<rparr> db;
                          db2 = IssueReaction_delete issue_reaction db1
                      in (Inr (Response NoBody HTTP_204_NO_CONTENT), db2)))))"

subsection \<open>CommentReactionPublicViewSet\<close>

definition CommentReactionSerializer_data :: "CommentReaction \<Rightarrow> payload" where
  "CommentReactionSerializer_data r =
     [(''id'', JUuid (cr_id r)), (''reaction'', JStr (cr_reaction r)),
      (''actor'', JUuid (cr_actor r)), (''comment'', JUuid (cr_comment_id r)),
      (''project'', JUuid (cr_project_id r)), (''workspace'', JStr (cr_workspace_slug r))]"

definition CommentReaction_create ::
  "payload \<Rightarrow> uuid \<Rightarrow> uuid \<Rightarrow> uuid \<Rightarrow> nat \<Rightarrow> database
     \<Rightarrow> (exn + CommentReaction) \<times> database" where
  "CommentReaction_create d project_id comment_id actor created_at db =
     (case project_workspace project_id db of
        Inl e \<Rightarrow> (Inl e, db)
      | Inr ws \<Rightarrow>
          (let r = \<lparr>cr_id = next_uuid db, cr_workspace_slug = ws, cr_project_id = project_id,
                    cr_comment_id = comment_id, cr_actor = actor, cr_reaction = reaction_of d,
                    cr_created_at = created_at\<rparr>
           in (Inr r,
               db\<lparr>CommentReaction_objects := CommentReaction_objects db @ [r],
                  next_uuid := Suc (next_uuid db),
                  effects := effects db @ [Insert MCommentReaction (cr_id r)]\<rparr>)))"

definition CommentReaction_delete :: "CommentReaction \<Rightarrow> database \<Rightarrow> database" where
  "CommentReaction_delete r db =
     db\<lparr>CommentReaction_objects :=
          filter (\<lambda>x. cr_id x \<noteq> cr_id r) (CommentReaction_objects db),
        effects := effects db @ [Delete MCommentReaction (cr_id r)]\<rparr>"

definition CommentReactionPublicViewSet_get_queryset ::
  "string \<Rightarrow> uuid \<Rightarrow> uuid \<Rightarrow> database \<Rightarrow> exn + CommentReaction list" where
  "CommentReactionPublicViewSet_get_queryset slug project_id comment_id db =
     (case ProjectDeployBoard_get slug project_id db of
        Inl (DoesNotExist x) \<Rightarrow> Inr []
      | Inl e \<Rightarrow> Inl e
      | Inr project_deploy_board \<Rightarrow>
          (if reactions project_deploy_board
           then Inr (remdups (rev (sort_key cr_created_at
                  (filter (\<lambda>r. cr_comment_id r = comment_id)
                    (filter (\<lambda>r. cr_project_id r = project_id)
                      (filter (\<lambda>r. cr_workspace_slug r = slug)
                        (CommentReaction_objects db)))))))
           else Inr []))"

definition CommentReactionPublicViewSet_create ::
  "(payload \<Rightarrow> bool) \<Rightarrow> request \<Rightarrow> string \<Rightarrow> uuid \<Rightarrow> uuid \<Rightarrow> database \<Rightarrow> outcome" where
  "CommentReactionPublicViewSet_create is_valid request slug project_id comment_id db =
     (case ProjectDeployBoard_get slug project_id db of
        Inl e \<Rightarrow> (Inl e, db)
      | Inr project_deploy_board \<Rightarrow>
          (if \<not> reactions project_deploy_board
           then (Inr (Response (ErrorBody ''Reactions are not enabled for this board'')
                        HTTP_400_BAD_REQUEST), db)
           else if is_valid (data request)
           then (case CommentReaction_create (data request) project_id comment_id
                        (user request) (now request) db of
                   (Inl e, db1) \<Rightarrow> (Inl e, db1)
                 | (Inr comment_reaction, db1) \<Rightarrow>
                     (case add_user_for_workspace_tracking project_id (user request) db1 of
                        (Inl e, db2) \<Rightarrow> (Inl e, db2)
                      | (Inr _, db2) \<Rightarrow>
                          (let db3 = issue_activity_delay
                                       \<lparr>ev_type = ''comment_reaction.activity.created'',
                                        ev_requested_data = Some (data request),
                                        ev_actor_id = user request,
                                        ev_issue_id = None,
                                        ev_project_id = project_id,
                                        ev_current_instance = None,
                                        ev_epoch = now request\<rparr> db2
                           in (Inr (Response
                                      (Data (CommentReactionSerializer_data comment_reaction))
                                      HTTP_201_CREATED), db3))))
           else (Inr (Response SerializerErrors HTTP_400_BAD_REQUEST), db)))"

definition CommentReactionPublicViewSet_destroy ::
  "request \<Rightarrow> string \<Rightarrow> uuid \<Rightarrow> uuid \<Rightarrow> string \<Rightarrow> database \<Rightarrow> outcome" where
  "CommentReactionPublicViewSet_destroy request slug project_id comment_id reaction_code db =
     (case ProjectDeployBoard_get slug project_id db of
        Inl e \<Rightarrow> (Inl e, db)
      | Inr project_deploy_board \<Rightarrow>
          (if \<not> reactions project_deploy_board
           then (Inr (Response (ErrorBody ''Reactions are not enabled for this board'')
                        HTTP_400_BAD_REQUEST), db)
           else (case objects_get MCommentReaction
                        (\<lambda>r. cr_project_id r = project_id \<and> cr_workspace_slug r = slug
                             \<and> cr_comment_id r = comment_id \<and> cr_reaction r = reaction_code
                             \<and> cr_actor r = user request)
                        (CommentReaction_objects db) of
                   Inl e \<Rightarrow> (Inl e, db)
                 | Inr comment_reaction \<Rightarrow>
                     (let db1 = issue_activity_delay
                                  \<lparr>ev_type = ''comment_reaction.activity.deleted'',
                                   ev_requested_data = None,
                                   ev_actor_id = user request,
                                   ev_issue_id = None,
                                   ev_project_id = project_id,
                                   ev_current_instance =
                                     Some [(''reaction'', JStr reaction_code),
                                           (''identifier'', JUuid (cr_id comment_reaction)),
                                           (''comment_id'', JUuid comment_id)],
                                   ev_epoch = now request\<rparr> db;
                          db2 = CommentReaction_delete comment_reaction db1
                      in (Inr (Response NoBody HTTP_204_NO_CONTENT), db2)))))"

subsection \<open>IssueRetrievePublicEndpoint\<close>

text \<open>
  Modelled from the spec: IssuePublicSerializer (plane.app.serializers) is not among the
  sources; the representation of an issue carries its identifier and its scope.
\<close>

definition IssuePublicSerializer_data :: "Issue \<Rightarrow> payload" where
  "IssuePublicSerializer_data i =
     [(''id'', JUuid (i_id i)), (''project'', JUuid (i_project_id i)),
      (''workspace'', JStr (i_workspace_slug i)), (''is_draft'', JBool (i_is_draft i))]"

definition IssueRetrievePublicEndpoint_get ::
  "string \<Rightarrow> uuid \<Rightarrow> uuid \<Rightarrow> database \<Rightarrow> exn + response" where
  "IssueRetrievePublicEndpoint_get slug project_id issue_id db =
     (case objects_get MIssue
             (\<lambda>i. i_workspace_slug i = slug \<and> i_project_id i = project_id \<and> i_id i = issue_id)
             (Issue_objects db) of
        Inl e \<Rightarrow> Inl e
      | Inr issue \<Rightarrow> Inr (Response (Data (IssuePublicSerializer_data issue)) HTTP_200_OK))"

subsection \<open>ProjectIssuesPublicEndpoint\<close>

text \<open>
  What the endpoint calls and the sources do not contain: \<open>get_queryset\<close> of the base
  view, \<open>issue_filters\<close> (the parsed filters of the request, as a predicate on issues),
  \<open>order_issue_queryset\<close>, \<open>issue_queryset_grouper\<close>, \<open>paginate\<close> (the page cut out of
  the queryset, flat or grouped), the manager \<open>issue_objects\<close> of the issues that the
  sub-issue count ranges over, and the query parameter \<open>group_by\<close>.
\<close>

record collaborators =
  get_queryset :: "exn + issue_row list"
  issue_filters :: "Issue \<Rightarrow> bool"
  order_issue_queryset :: "issue_row list \<Rightarrow> issue_row list"
  issue_queryset_grouper :: "issue_row list \<Rightarrow> issue_row list"
  paginate :: "bool \<Rightarrow> issue_row list \<Rightarrow> issue_row list"
  issue_objects :: "Issue \<Rightarrow> bool"
  group_by :: bool

text \<open>
  The left join behind \<^verbatim>\<open>annotate(cycle_id=F("issue_cycle__cycle_id"))\<close>: one row per
  cycle of the issue, one row with NULL when it has none.
\<close>

definition issue_cycle_ids :: "Issue \<Rightarrow> database \<Rightarrow> uuid option list" where
  "issue_cycle_ids i db =
     (case filter (\<lambda>c. ci_issue c = i_id i) (CycleIssue_objects db) of
        [] \<Rightarrow> [None]
      | cs \<Rightarrow> map (\<lambda>c. Some (ci_cycle_id c)) cs)"

text \<open>The queryset of lines 532 to 561, with its three correlated counts.\<close>

definition annotated_issue_queryset ::
  "collaborators \<Rightarrow> string \<Rightarrow> uuid \<Rightarrow> database \<Rightarrow> issue_row list" where
  "annotated_issue_queryset env slug project_id db =
     remdups (concat (map
       (\<lambda>i. map (\<lambda>c.
               \<lparr>row_issue = i,
                cycle_id = Some c,
                link_count =
                  Some (length (filter (\<lambda>l. l_issue l = i_id i) (IssueLink_objects db))),
                attachment_count =
                  Some (length (filter (\<lambda>a. a_issue a = i_id i) (IssueAttachment_objects db))),
                sub_issues_count =
                  Some (length (filter (\<lambda>s. i_parent s = Some (i_id i))
                                  (filter (issue_objects env) (Issue_objects db))))\<rparr>)
             (issue_cycle_ids i db))
       (filter (\<lambda>i. i_is_draft i)
         (filter (\<lambda>i. i_workspace_slug i = slug)
           (filter (\<lambda>i. i_project_id i = project_id) (Issue_objects db))))))"

text \<open>
  The handler binds \<^verbatim>\<open>issue_queryset\<close> to the annotated queryset and then, at line
  565, binds it again to \<^verbatim>\<open>self.get_queryset().filter(**filters)\<close>; the model keeps
  both bindings.
\<close>

definition ProjectIssuesPublicEndpoint_get ::
  "collaborators \<Rightarrow> string \<Rightarrow> uuid \<Rightarrow> database \<Rightarrow> exn + response" where
  "ProjectIssuesPublicEndpoint_get env slug project_id db =
     (if \<not> (filter (\<lambda>b. b_workspace_slug b = slug \<and> b_project_id b = project_id)
               (ProjectDeployBoard_objects db) \<noteq> [])
      then Inr (Response (ErrorBody ''Project is not published'') HTTP_404_NOT_FOUND)
      else (let issue_queryset = annotated_issue_queryset env slug project_id db
            in (case get_queryset env of
                  Inl e \<Rightarrow> Inl e
                | Inr base_queryset \<Rightarrow>
                    (let issue_queryset =
                           filter (\<lambda>r. issue_filters env (row_issue r)) base_queryset;
                         issue_queryset = order_issue_queryset env issue_queryset;
                         issue_queryset = issue_queryset_grouper env issue_queryset
                     in Inr (Response (Page (paginate env (group_by env) issue_queryset))
                               HTTP_200_OK)))))"

subsection \<open>Constraints of the tables\<close>







text \<open>The deploy boards of a (workspace, project) pair.\<close>

definition deploy_boards_of :: "string \<Rightarrow> uuid \<Rightarrow> database \<Rightarrow> ProjectDeployBoard list" where
  "deploy_boards_of slug project_id db =
     filter (\<lambda>b. b_workspace_slug b = slug \<and> b_project_id b = project_id)
       (ProjectDeployBoard_objects db)"

subsection \<open>The create and destroy actions of the four view sets\<close>




datatype destroy_action =
  CommentDestroy uuid uuid
  | IssueReactionDestroy uuid string
  | CommentReactionDestroy uuid string
  | IssueVoteDestroy uuid

fun perform_destroy :: "destroy_action \<Rightarrow> request \<Rightarrow> string \<Rightarrow> uuid \<Rightarrow> database \<Rightarrow> outcome" where
  "perform_destroy (CommentDestroy issue_id pk) request slug project_id db =
     IssueCommentPublicViewSet_destroy request slug project_id issue_id pk db"
| "perform_destroy (IssueReactionDestroy issue_id reaction_code) request slug project_id db =
     IssueReactionPublicViewSet_destroy request slug project_id issue_id reaction_code db"
| "perform_destroy (CommentReactionDestroy comment_id reaction_code) request slug project_id db =
     CommentReactionPublicViewSet_destroy request slug project_id comment_id reaction_code db"
| "perform_destroy (IssueVoteDestroy issue_id) request slug project_id db =
     IssueVotePublicViewSet_destroy request slug project_id issue_id db"

text \<open>The table a destroy action deletes from, and the primary keys in a table.\<close>

fun destroyed_model :: "destroy_action \<Rightarrow> model" where
  "destroyed_model (CommentDestroy _ _) = MIssueComment"
| "destroyed_model (IssueReactionDestroy _ _) = MIssueReaction"
| "destroyed_model (CommentReactionDestroy _ _) = MCommentReaction"
| "destroyed_model (IssueVoteDestroy _) = MIssueVote"

fun row_ids :: "model \<Rightarrow> database \<Rightarrow> uuid list" where
  "row_ids MIssueComment db = map c_id (IssueComment_objects db)"
| "row_ids MIssueReaction db = map ir_id (IssueReaction_objects db)"
| "row_ids MCommentReaction db = map cr_id (CommentReaction_objects db)"
| "row_ids MIssueVote db = map v_id (IssueVote_objects db)"
| "row_ids MProjectPublicMember db = map ppm_id (ProjectPublicMember_objects db)"
| "row_ids MIssue db = map i_id (Issue_objects db)"
| "row_ids MProject db = map p_id (Project_objects db)"
| "row_ids MProjectDeployBoard db = []"

text \<open>
  The resource name that prefixes the event type of a destroy action, and the key under
  which the snapshot of the deleted row carries its primary key.
\<close>

fun resource_name :: "destroy_action \<Rightarrow> string" where
  "resource_name (CommentDestroy _ _) = ''comment''"
| "resource_name (IssueReactionDestroy _ _) = ''issue_reaction''"
| "resource_name (CommentReactionDestroy _ _) = ''comment_reaction''"
| "resource_name (IssueVoteDestroy _) = ''issue_vote''"

fun identifier_key :: "destroy_action \<Rightarrow> string" where
  "identifier_key (CommentDestroy _ _) = ''id''"
| "identifier_key _ = ''identifier''"

text \<open>
  The primary key of the row that the handler of a destroy action looks up, and whether
  the deploy board lets the action pass (the vote handler asks no board).
\<close>

fun destroy_lookup :: "destroy_action \<Rightarrow> request \<Rightarrow> string \<Rightarrow> uuid \<Rightarrow> database \<Rightarrow> exn + uuid" where
  "destroy_lookup (CommentDestroy issue_id pk) request slug project_id db =
     map_sum id c_id
       (objects_get MIssueComment
          (\<lambda>c. c_workspace_slug c = slug \<and> c_id c = pk \<and> c_project_id c = project_id
               \<and> c_actor c = user request)
          (IssueComment_objects db))"
| "destroy_lookup (IssueReactionDestroy issue_id reaction_code) request slug project_id db =
     map_sum id ir_id
       (objects_get MIssueReaction
          (\<lambda>r. ir_workspace_slug r = slug \<and> ir_issue_id r = issue_id
               \<and> ir_reaction r = reaction_code \<and> ir_actor r = user request)
          (IssueReaction_objects db))"
| "destroy_lookup (CommentReactionDestroy comment_id reaction_code) request slug project_id db =
     map_sum id cr_id
       (objects_get MCommentReaction
          (\<lambda>r. cr_project_id r = project_id \<and> cr_workspace_slug r = slug
               \<and> cr_comment_id r = comment_id \<and> cr_reaction r = reaction_code
               \<and> cr_actor r = user request)
          (CommentReaction_objects db))"
| "destroy_lookup (IssueVoteDestroy issue_id) request slug project_id db =
     map_sum id v_id
       (objects_get MIssueVote
          (\<lambda>v. v_workspace_slug v = slug \<and> v_project_id v = project_id
               \<and> v_issue_id v = issue_id \<and> v_actor v = user request)
          (IssueVote_objects db))"

text \<open>
  The snapshot of the row that a destroy action looks up, as the event of the deletion is
  to carry it: the serialized comment, or the key and the identifier of a reaction or a
  vote, all read from the row itself.
\<close>

fun destroy_snapshot ::
  "destroy_action \<Rightarrow> request \<Rightarrow> string \<Rightarrow> uuid \<Rightarrow> database \<Rightarrow> exn + payload" where
  "destroy_snapshot (CommentDestroy issue_id pk) request slug project_id db =
     map_sum id IssueCommentSerializer_data
       (objects_get MIssueComment
          (\<lambda>c. c_workspace_slug c = slug \<and> c_id c = pk \<and> c_project_id c = project_id
               \<and> c_actor c = user request)
          (IssueComment_objects db))"
| "destroy_snapshot (IssueReactionDestroy issue_id reaction_code) request slug project_id db =
     map_sum id (\<lambda>r. [(''reaction'', JStr (ir_reaction r)), (''identifier'', JUuid (ir_id r))])
       (objects_get MIssueReaction
          (\<lambda>r. ir_workspace_slug r = slug \<and> ir_issue_id r = issue_id
               \<and> ir_reaction r = reaction_code \<and> ir_actor r = user request)
          (IssueReaction_objects db))"
| "destroy_snapshot (CommentReactionDestroy comment_id reaction_code) request slug project_id db =
     map_sum id (\<lambda>r. [(''reaction'', JStr (cr_reaction r)), (''identifier'', JUuid (cr_id r)),
                       (''comment_id'', JUuid (cr_comment_id r))])
       (objects_get MCommentReaction
          (\<lambda>r. cr_project_id r = project_id \<and> cr_workspace_slug r = slug
               \<and> cr_comment_id r = comment_id \<and> cr_reaction r = reaction_code
               \<and> cr_actor r = user request)
          (CommentReaction_objects db))"
| "destroy_snapshot (IssueVoteDestroy issue_id) request slug project_id db =
     map_sum id (\<lambda>v. [(''vote'', JStrInt (vote v)), (''identifier'', JUuid (v_id v))])
       (objects_get MIssueVote
          (\<lambda>v. v_workspace_slug v = slug \<and> v_project_id v = project_id
               \<and> v_issue_id v = issue_id \<and> v_actor v = user request)
          (IssueVote_objects db))"

text \<open>
  Whether the identity owns a row that the action targets: the comment of the given
  primary key, or a reaction or vote of the given natural key.
\<close>

fun owns_target :: "destroy_action \<Rightarrow> uuid \<Rightarrow> database \<Rightarrow> bool" where
  "owns_target (CommentDestroy issue_id pk) u db =
     (filter (\<lambda>c. c_id c = pk \<and> c_actor c = u) (IssueComment_objects db) \<noteq> [])"
| "owns_target (IssueReactionDestroy issue_id reaction_code) u db =
     (filter (\<lambda>r. ir_issue_id r = issue_id \<and> ir_reaction r = reaction_code \<and> ir_actor r = u)
        (IssueReaction_objects db) \<noteq> [])"
| "owns_target (CommentReactionDestroy comment_id reaction_code) u db =
     (filter (\<lambda>r. cr_comment_id r = comment_id \<and> cr_reaction r = reaction_code
                  \<and> cr_actor r = u)
        (CommentReaction_objects db) \<noteq> [])"
| "owns_target (IssueVoteDestroy issue_id) u db =
     (filter (\<lambda>v. v_issue_id v = issue_id \<and> v_actor v = u) (IssueVote_objects db) \<noteq> [])"

definition HTTP_403_FORBIDDEN :: nat where "HTTP_403_FORBIDDEN = 403"

fun capability :: "destroy_action \<Rightarrow> ProjectDeployBoard \<Rightarrow> bool" where
  "capability (CommentDestroy _ _) b = comments b"
| "capability (IssueReactionDestroy _ _) b = reactions b"
| "capability (CommentReactionDestroy _ _) b = reactions b"
| "capability (IssueVoteDestroy _) b = True"

fun gate_passes :: "destroy_action \<Rightarrow> string \<Rightarrow> uuid \<Rightarrow> database \<Rightarrow> bool" where
  "gate_passes (IssueVoteDestroy _) slug project_id db = True"
| "gate_passes a slug project_id db =
     (case ProjectDeployBoard_get slug project_id db of
        Inl _ \<Rightarrow> False
      | Inr b \<Rightarrow> capability a b)"

text \<open>
  A base queryset for the listing endpoint: every issue, without annotations (what
  \<^verbatim>\<open>Issue.objects.all()\<close> yields).
\<close>

definition unannotated :: "Issue \<Rightarrow> issue_row" where
  "unannotated i =
     \<lparr>row_issue = i, cycle_id = None, link_count = None, attachment_count = None,
      sub_issues_count = None\<rparr>"

definition all_issues_env :: "database \<Rightarrow> collaborators" where
  "all_issues_env db =
     \<lparr>get_queryset = Inr (map unannotated (Issue_objects db)),
      issue_filters = (\<lambda>i. True),
      order_issue_queryset = (\<lambda>q. q),
      issue_queryset_grouper = (\<lambda>q. q),
      paginate = (\<lambda>g q. q),
      issue_objects = (\<lambda>i. True),
      group_by = False\<rparr>"


subsection \<open>Example states\<close>

definition db_empty :: database where
  "db_empty =
     \<lparr>Project_objects = [], ProjectDeployBoard_objects = [], Issue_objects = [],
      IssueLink_objects = [], IssueAttachment_objects = [], CycleIssue_objects = [],
      IssueComment_objects = [], IssueReaction_objects = [], CommentReaction_objects = [],
      IssueVote_objects = [], ProjectMember_objects = [], ProjectPublicMember_objects = [],
      next_uuid = 100, effects = []\<rparr>"

text \<open>
  Project 1 of workspace acme with the issue 7, on which user 5 has commented, reacted
  and voted and user 6 has reacted with the same code; issue 8 is a draft of project 2 in
  another workspace. There is no deploy board.
\<close>

definition db_unpublished :: database where
  "db_unpublished =
     db_empty\<lparr>Project_objects := [\<lparr>p_id = 1, p_workspace_slug = ''acme''\<rparr>],
              Issue_objects :=
                [\<lparr>i_id = 7, i_workspace_slug = ''acme'', i_project_id = 1,
                  i_is_draft = False, i_archived_at = None, i_parent = None\<rparr>,
                 \<lparr>i_id = 8, i_workspace_slug = ''other'', i_project_id = 2,
                  i_is_draft = True, i_archived_at = None, i_parent = None\<rparr>],
              IssueComment_objects :=
                [\<lparr>c_id = 20, c_workspace_slug = ''acme'', c_project_id = 1, c_issue_id = 7,
                  c_actor = 5, c_access = ''EXTERNAL'', c_comment_html = ''old'',
                  c_created_at = 3\<rparr>],
              IssueReaction_objects :=
                [\<lparr>ir_id = 30, ir_workspace_slug = ''acme'', ir_project_id = 1,
                  ir_issue_id = 7, ir_actor = 5, ir_reaction = ''+1'', ir_created_at = 4\<rparr>,
                 \<lparr>ir_id = 31, ir_workspace_slug = ''acme'', ir_project_id = 1,
                  ir_issue_id = 7, ir_actor = 6, ir_reaction = ''+1'', ir_created_at = 5\<rparr>],
              CommentReaction_objects :=
                [\<lparr>cr_id = 35, cr_workspace_slug = ''acme'', cr_project_id = 1,
                  cr_comment_id = 20, cr_actor = 5, cr_reaction = ''+1'',
                  cr_created_at = 6\<rparr>],
              IssueVote_objects :=
                [\<lparr>v_id = 40, v_workspace_slug = ''acme'', v_project_id = 1, v_issue_id = 7,
                  v_actor = 5, vote = - 1\<rparr>]\<rparr>"

text \<open>
  The same state where project 2 belongs to the workspace acme as well, so that a request
  can name the issue 7 under either project.
\<close>

definition db_two_projects :: database where
  "db_two_projects =
     db_unpublished\<lparr>Project_objects :=
       [\<lparr>p_id = 1, p_workspace_slug = ''acme''\<rparr>, \<lparr>p_id = 2, p_workspace_slug = ''acme''\<rparr>]\<rparr>"

text \<open>The same state behind a deploy board on which the given capabilities are enabled.\<close>

definition db_board :: "bool \<Rightarrow> bool \<Rightarrow> bool \<Rightarrow> database" where
  "db_board c r v =
     db_unpublished\<lparr>ProjectDeployBoard_objects :=
       [\<lparr>b_workspace_slug = ''acme'', b_project_id = 1, comments = c, reactions = r,
         votes = v\<rparr>]\<rparr>"

lemmas example_defs = db_empty_def db_unpublished_def db_two_projects_def db_board_def

lemmas query_defs = objects_get_def ProjectDeployBoard_get_def project_workspace_def
  issue_activity_delay_def ProjectPublicMember_get_or_create_def is_active_member_def
  add_user_for_workspace_tracking_def

lemmas vote_defs = IssueVoteSerializer_data_def IssueVote_get_or_create_def IssueVote_save_def
  IssueVote_delete_def IssueVotePublicViewSet_create_def IssueVotePublicViewSet_destroy_def
  IssueVotePublicViewSet_get_queryset_def IntegerField_to_python_def int4_min_def
  int4_max_def

lemmas status_defs = HTTP_200_OK_def HTTP_201_CREATED_def HTTP_204_NO_CONTENT_def
  HTTP_400_BAD_REQUEST_def HTTP_404_NOT_FOUND_def HTTP_403_FORBIDDEN_def

lemmas comment_defs = IssueCommentSerializer_data_def comment_html_of_def
  IssueCommentSerializer_update_def IssueComment_create_def IssueComment_save_def
  IssueComment_delete_def IssueCommentPublicViewSet_get_queryset_def
  IssueCommentPublicViewSet_create_def IssueCommentPublicViewSet_partial_update_def
  IssueCommentPublicViewSet_destroy_def

lemmas reaction_defs = reaction_of_def IssueReactionSerializer_data_def
  IssueReaction_create_def IssueReaction_delete_def IssueReactionPublicViewSet_get_queryset_def
  IssueReactionPublicViewSet_create_def IssueReactionPublicViewSet_destroy_def
  CommentReactionSerializer_data_def CommentReaction_create_def CommentReaction_delete_def
  CommentReactionPublicViewSet_get_queryset_def CommentReactionPublicViewSet_create_def
  CommentReactionPublicViewSet_destroy_def


lemmas listing_defs = IssuePublicSerializer_data_def IssueRetrievePublicEndpoint_get_def
  issue_cycle_ids_def annotated_issue_queryset_def ProjectIssuesPublicEndpoint_get_def
  unannotated_def all_issues_env_def deploy_boards_of_def

lemmas destroy_defs = IssueCommentPublicViewSet_destroy_def
  IssueReactionPublicViewSet_destroy_def CommentReactionPublicViewSet_destroy_def
  IssueVotePublicViewSet_destroy_def IssueComment_delete_def IssueReaction_delete_def
  CommentReaction_delete_def IssueVote_delete_def

section \<open>Properties\<close>

subsection \<open>Lookups\<close>

lemma objects_get_Inr_iff: "objects_get m P rows = Inr r \<longleftrightarrow> filter P rows = [r]"
  by (auto simp: objects_get_def split: list.splits)

lemma objects_get_empty: "filter P rows = [] \<Longrightarrow> objects_get m P rows = Inl (DoesNotExist m)"
  by (simp add: objects_get_def)

lemma objects_get_single: "filter P rows = [r] \<Longrightarrow> objects_get m P rows = Inr r"
  by (simp add: objects_get_def)


subsection \<open>The vote create handler\<close>














subsection \<open>Visitor registration inside the create handlers\<close>









lemma tracking_frame:
  assumes "add_user_for_workspace_tracking p u db = (r, db')"
  shows "ProjectMember_objects db' = ProjectMember_objects db"
  using assms
  by (auto simp: add_user_for_workspace_tracking_def ProjectPublicMember_get_or_create_def
        Let_def split: sum.splits exn.splits if_splits)






subsection \<open>The deploy board gate\<close>

lemma board_get_missing:
  "deploy_boards_of slug p db = [] \<Longrightarrow>
     ProjectDeployBoard_get slug p db = Inl (DoesNotExist MProjectDeployBoard)"
  by (simp add: deploy_boards_of_def ProjectDeployBoard_get_def objects_get_empty)

lemma board_get_single:
  "deploy_boards_of slug p db = [b] \<Longrightarrow> ProjectDeployBoard_get slug p db = Inr b"
  by (simp add: deploy_boards_of_def ProjectDeployBoard_get_def objects_get_single)

subsection \<open>The destroy handlers\<close>

lemma comment_destroy_shape:
  assumes "IssueCommentPublicViewSet_destroy request slug p i pk db
             = (Inr (Response bd HTTP_204_NO_CONTENT), db')"
  shows "\<exists>comment. objects_get MIssueComment
             (\<lambda>c. c_workspace_slug c = slug \<and> c_id c = pk \<and> c_project_id c = p
                  \<and> c_actor c = user request)
             (IssueComment_objects db) = Inr comment
         \<and> bd = NoBody
         \<and> db' = IssueComment_delete comment
                   (issue_activity_delay
                      \<lparr>ev_type = ''comment.activity.deleted'',
                       ev_requested_data = Some [(''comment_id'', JUuid pk)],
                       ev_actor_id = user request, ev_issue_id = Some i, ev_project_id = p,
                       ev_current_instance = Some (IssueCommentSerializer_data comment),
                       ev_epoch = now request\<rparr> db)"
  using assms
  by (auto simp: IssueCommentPublicViewSet_destroy_def Let_def status_defs
        split: sum.splits if_splits)

lemma issue_reaction_destroy_shape:
  assumes "IssueReactionPublicViewSet_destroy request slug p i code db
             = (Inr (Response bd HTTP_204_NO_CONTENT), db')"
  shows "\<exists>r. objects_get MIssueReaction
             (\<lambda>r. ir_workspace_slug r = slug \<and> ir_issue_id r = i
                  \<and> ir_reaction r = code \<and> ir_actor r = user request)
             (IssueReaction_objects db) = Inr r
         \<and> bd = NoBody
         \<and> db' = IssueReaction_delete r
                   (issue_activity_delay
                      \<lparr>ev_type = ''issue_reaction.activity.deleted'',
                       ev_requested_data = None,
                       ev_actor_id = user request, ev_issue_id = Some i, ev_project_id = p,
                       ev_current_instance =
                         Some [(''reaction'', JStr code), (''identifier'', JUuid (ir_id r))],
                       ev_epoch = now request\<rparr> db)"
  using assms
  by (auto simp: IssueReactionPublicViewSet_destroy_def Let_def status_defs
        split: sum.splits if_splits)

lemma comment_reaction_destroy_shape:
  assumes "CommentReactionPublicViewSet_destroy request slug p c code db
             = (Inr (Response bd HTTP_204_NO_CONTENT), db')"
  shows "\<exists>r. objects_get MCommentReaction
             (\<lambda>r. cr_project_id r = p \<and> cr_workspace_slug r = slug
                  \<and> cr_comment_id r = c \<and> cr_reaction r = code
                  \<and> cr_actor r = user request)
             (CommentReaction_objects db) = Inr r
         \<and> bd = NoBody
         \<and> db' = CommentReaction_delete r
                   (issue_activity_delay
                      \<lparr>ev_type = ''comment_reaction.activity.deleted'',
                       ev_requested_data = None,
                       ev_actor_id = user request, ev_issue_id = None, ev_project_id = p,
                       ev_current_instance =
                         Some [(''reaction'', JStr code), (''identifier'', JUuid (cr_id r)),
                               (''comment_id'', JUuid c)],
                       ev_epoch = now request\<rparr> db)"
  using assms
  by (auto simp: CommentReactionPublicViewSet_destroy_def Let_def status_defs
        split: sum.splits if_splits)

lemma vote_destroy_shape:
  assumes "IssueVotePublicViewSet_destroy request slug p i db
             = (Inr (Response bd HTTP_204_NO_CONTENT), db')"
  shows "\<exists>v. objects_get MIssueVote
             (\<lambda>v. v_workspace_slug v = slug \<and> v_project_id v = p
                  \<and> v_issue_id v = i \<and> v_actor v = user request)
             (IssueVote_objects db) = Inr v
         \<and> bd = NoBody
         \<and> db' = IssueVote_delete v
                   (issue_activity_delay
                      \<lparr>ev_type = ''issue_vote.activity.deleted'',
                       ev_requested_data = None,
                       ev_actor_id = user request, ev_issue_id = Some i, ev_project_id = p,
                       ev_current_instance =
                         Some [(''vote'', JStrInt (vote v)), (''identifier'', JUuid (v_id v))],
                       ev_epoch = now request\<rparr> db)"
  using assms
  by (auto simp: IssueVotePublicViewSet_destroy_def Let_def status_defs
        split: sum.splits if_splits)

lemma objects_get_member: "objects_get m P rows = Inr r \<Longrightarrow> r \<in> set rows \<and> P r"
proof -
  assume "objects_get m P rows = Inr r"
  then have "filter P rows = [r]" by (simp add: objects_get_Inr_iff)
  then have "r \<in> set (filter P rows)" by simp
  then show ?thesis by simp
qed

lemma filter_ids: "map f (filter (\<lambda>r. f r \<noteq> k) T) = filter (\<lambda>x. x \<noteq> k) (map f T)"
  by (induction T) auto

lemma destroy_success:
  assumes h: "perform_destroy a request slug project_id db
                = (Inr (Response bd HTTP_204_NO_CONTENT), db')"
  shows "bd = NoBody
       \<and> (\<exists>rid ev snap.
             destroy_lookup a request slug project_id db = Inr rid
           \<and> effects db' = effects db @ [Emit ev, Delete (destroyed_model a) rid]
           \<and> ev_type ev = resource_name a @ ''.activity.deleted''
           \<and> ev_current_instance ev = Some snap
           \<and> destroy_snapshot a request slug project_id db = Inr snap
           \<and> map_of snap (identifier_key a) = Some (JUuid rid)
           \<and> rid \<in> set (row_ids (destroyed_model a) db)
           \<and> row_ids (destroyed_model a) db'
               = filter (\<lambda>x. x \<noteq> rid) (row_ids (destroyed_model a) db))"
proof (cases a)
  case (CommentDestroy i pk)
  with h have "IssueCommentPublicViewSet_destroy request slug project_id i pk db
                 = (Inr (Response bd HTTP_204_NO_CONTENT), db')" by simp
  from comment_destroy_shape [OF this] obtain c where
    g: "objects_get MIssueComment
          (\<lambda>c. c_workspace_slug c = slug \<and> c_id c = pk \<and> c_project_id c = project_id
               \<and> c_actor c = user request)
          (IssueComment_objects db) = Inr c"
    and bd: "bd = NoBody"
    and db': "db' = IssueComment_delete c
                   (issue_activity_delay
                      \<lparr>ev_type = ''comment.activity.deleted'',
                       ev_requested_data = Some [(''comment_id'', JUuid pk)],
                       ev_actor_id = user request, ev_issue_id = Some i,
                       ev_project_id = project_id,
                       ev_current_instance = Some (IssueCommentSerializer_data c),
                       ev_epoch = now request\<rparr> db)"
    by blast
  from objects_get_member [OF g] have m: "c \<in> set (IssueComment_objects db)" by simp
  show ?thesis
    apply (rule conjI [OF bd])
    apply (rule exI [of _ "c_id c"])
    apply (rule exI [of _ "\<lparr>ev_type = ''comment.activity.deleted'',
                       ev_requested_data = Some [(''comment_id'', JUuid pk)],
                       ev_actor_id = user request, ev_issue_id = Some i,
                       ev_project_id = project_id,
                       ev_current_instance = Some (IssueCommentSerializer_data c),
                       ev_epoch = now request\<rparr>"])
    apply (rule exI [of _ "IssueCommentSerializer_data c"])
    using g m objects_get_member [OF g]
    by (auto simp add: CommentDestroy db' IssueComment_delete_def issue_activity_delay_def
          IssueCommentSerializer_data_def filter_ids)
next
  case (IssueReactionDestroy i code)
  with h have "IssueReactionPublicViewSet_destroy request slug project_id i code db
                 = (Inr (Response bd HTTP_204_NO_CONTENT), db')" by simp
  from issue_reaction_destroy_shape [OF this] obtain r where
    g: "objects_get MIssueReaction
          (\<lambda>r. ir_workspace_slug r = slug \<and> ir_issue_id r = i
               \<and> ir_reaction r = code \<and> ir_actor r = user request)
          (IssueReaction_objects db) = Inr r"
    and bd: "bd = NoBody"
    and db': "db' = IssueReaction_delete r
                   (issue_activity_delay
                      \<lparr>ev_type = ''issue_reaction.activity.deleted'',
                       ev_requested_data = None,
                       ev_actor_id = user request, ev_issue_id = Some i,
                       ev_project_id = project_id,
                       ev_current_instance =
                         Some [(''reaction'', JStr code), (''identifier'', JUuid (ir_id r))],
                       ev_epoch = now request\<rparr> db)"
    by blast
  from objects_get_member [OF g] have m: "r \<in> set (IssueReaction_objects db)" by simp
  show ?thesis
    apply (rule conjI [OF bd])
    apply (rule exI [of _ "ir_id r"])
    apply (rule exI [of _ "\<lparr>ev_type = ''issue_reaction.activity.deleted'',
                       ev_requested_data = None,
                       ev_actor_id = user request, ev_issue_id = Some i,
                       ev_project_id = project_id,
                       ev_current_instance =
                         Some [(''reaction'', JStr code), (''identifier'', JUuid (ir_id r))],
                       ev_epoch = now request\<rparr>"])
    apply (rule exI [of _ "[(''reaction'', JStr code), (''identifier'', JUuid (ir_id r))]"])
    using g m objects_get_member [OF g]
    by (auto simp add: IssueReactionDestroy db' IssueReaction_delete_def issue_activity_delay_def
          filter_ids)
next
  case (CommentReactionDestroy c code)
  with h have "CommentReactionPublicViewSet_destroy request slug project_id c code db
                 = (Inr (Response bd HTTP_204_NO_CONTENT), db')" by simp
  from comment_reaction_destroy_shape [OF this] obtain r where
    g: "objects_get MCommentReaction
          (\<lambda>r. cr_project_id r = project_id \<and> cr_workspace_slug r = slug
               \<and> cr_comment_id r = c \<and> cr_reaction r = code
               \<and> cr_actor r = user request)
          (CommentReaction_objects db) = Inr r"
    and bd: "bd = NoBody"
    and db': "db' = CommentReaction_delete r
                   (issue_activity_delay
                      \<lparr>ev_type = ''comment_reaction.activity.deleted'',
                       ev_requested_data = None,
                       ev_actor_id = user request, ev_issue_id = None,
                       ev_project_id = project_id,
                       ev_current_instance =
                         Some [(''reaction'', JStr code), (''identifier'', JUuid (cr_id r)),
                               (''comment_id'', JUuid c)],
                       ev_epoch = now request\<rparr> db)"
    by blast
  from objects_get_member [OF g] have m: "r \<in> set (CommentReaction_objects db)" by simp
  show ?thesis
    apply (rule conjI [OF bd])
    apply (rule exI [of _ "cr_id r"])
    apply (rule exI [of _ "\<lparr>ev_type = ''comment_reaction.activity.deleted'',
                       ev_requested_data = None,
                       ev_actor_id = user request, ev_issue_id = None,
                       ev_project_id = project_id,
                       ev_current_instance =
                         Some [(''reaction'', JStr code), (''identifier'', JUuid (cr_id r)),
                               (''comment_id'', JUuid c)],
                       ev_epoch = now request\<rparr>"])
    apply (rule exI [of _ "[(''reaction'', JStr code), (''identifier'', JUuid (cr_id r)),
                               (''comment_id'', JUuid c)]"])
    using g m objects_get_member [OF g]
    by (auto simp add: CommentReactionDestroy db' CommentReaction_delete_def
          issue_activity_delay_def filter_ids)
next
  case (IssueVoteDestroy i)
  with h have "IssueVotePublicViewSet_destroy request slug project_id i db
                 = (Inr (Response bd HTTP_204_NO_CONTENT), db')" by simp
  from vote_destroy_shape [OF this] obtain v where
    g: "objects_get MIssueVote
          (\<lambda>v. v_workspace_slug v = slug \<and> v_project_id v = project_id
               \<and> v_issue_id v = i \<and> v_actor v = user request)
          (IssueVote_objects db) = Inr v"
    and bd: "bd = NoBody"
    and db': "db' = IssueVote_delete v
                   (issue_activity_delay
                      \<lparr>ev_type = ''issue_vote.activity.deleted'',
                       ev_requested_data = None,
                       ev_actor_id = user request, ev_issue_id = Some i,
                       ev_project_id = project_id,
                       ev_current_instance =
                         Some [(''vote'', JStrInt (vote v)), (''identifier'', JUuid (v_id v))],
                       ev_epoch = now request\<rparr> db)"
    by blast
  from objects_get_member [OF g] have m: "v \<in> set (IssueVote_objects db)" by simp
  show ?thesis
    apply (rule conjI [OF bd])
    apply (rule exI [of _ "v_id v"])
    apply (rule exI [of _ "\<lparr>ev_type = ''issue_vote.activity.deleted'',
                       ev_requested_data = None,
                       ev_actor_id = user request, ev_issue_id = Some i,
                       ev_project_id = project_id,
                       ev_current_instance =
                         Some [(''vote'', JStrInt (vote v)), (''identifier'', JUuid (v_id v))],
                       ev_epoch = now request\<rparr>"])
    apply (rule exI [of _ "[(''vote'', JStrInt (vote v)), (''identifier'', JUuid (v_id v))]"])
    using g m objects_get_member [OF g]
    by (auto simp add: IssueVoteDestroy db' IssueVote_delete_def issue_activity_delay_def
          filter_ids)
qed

lemma destroy_unconditional:
  assumes gate: "gate_passes a slug project_id db"
    and found: "destroy_lookup a request slug project_id db = Inr rid"
  shows "fst (perform_destroy a request slug project_id db)
           = Inr (Response NoBody HTTP_204_NO_CONTENT)"
proof (cases a)
  case (CommentDestroy i pk)
  with gate found show ?thesis
    by (auto simp: IssueCommentPublicViewSet_destroy_def Let_def split: sum.splits)
next
  case (IssueReactionDestroy i code)
  with gate found show ?thesis
    by (auto simp: IssueReactionPublicViewSet_destroy_def Let_def split: sum.splits)
next
  case (CommentReactionDestroy c code)
  with gate found show ?thesis
    by (auto simp: CommentReactionPublicViewSet_destroy_def Let_def split: sum.splits)
next
  case (IssueVoteDestroy i)
  with gate found show ?thesis
    by (auto simp: IssueVotePublicViewSet_destroy_def Let_def split: sum.splits)
qed

subsection \<open>The create handlers answer 201\<close>









subsection \<open>Ownership in the lookup of update and delete\<close>

lemma gate_passes_board:
  assumes "gate_passes a slug p db" and "\<And>i. a \<noteq> IssueVoteDestroy i"
  shows "\<exists>b. ProjectDeployBoard_get slug p db = Inr b \<and> capability a b"
  using assms by (cases a) (auto split: sum.splits)

lemma destroy_not_owner:
  assumes gate: "gate_passes a slug p db"
    and no: "\<not> owns_target a (user request) db"
  shows "perform_destroy a request slug p db = (Inl (DoesNotExist (destroyed_model a)), db)"
proof (cases a)
  case (CommentDestroy i pk)
  with gate_passes_board [OF gate] obtain b where
    bg: "ProjectDeployBoard_get slug p db = Inr b" and fl: "comments b" by auto
  from no CommentDestroy
  have "filter (\<lambda>c. c_workspace_slug c = slug \<and> c_id c = pk \<and> c_project_id c = p
                     \<and> c_actor c = user request) (IssueComment_objects db) = []"
    by (auto simp: filter_empty_conv)
  from objects_get_empty [OF this] bg fl CommentDestroy show ?thesis
    by (simp add: IssueCommentPublicViewSet_destroy_def)
next
  case (IssueReactionDestroy i code)
  with gate_passes_board [OF gate] obtain b where
    bg: "ProjectDeployBoard_get slug p db = Inr b" and fl: "reactions b" by auto
  from no IssueReactionDestroy
  have "filter (\<lambda>r. ir_workspace_slug r = slug \<and> ir_issue_id r = i \<and> ir_reaction r = code
                     \<and> ir_actor r = user request) (IssueReaction_objects db) = []"
    by (auto simp: filter_empty_conv)
  from objects_get_empty [OF this] bg fl IssueReactionDestroy show ?thesis
    by (simp add: IssueReactionPublicViewSet_destroy_def)
next
  case (CommentReactionDestroy c code)
  with gate_passes_board [OF gate] obtain b where
    bg: "ProjectDeployBoard_get slug p db = Inr b" and fl: "reactions b" by auto
  from no CommentReactionDestroy
  have "filter (\<lambda>r. cr_project_id r = p \<and> cr_workspace_slug r = slug \<and> cr_comment_id r = c
                     \<and> cr_reaction r = code \<and> cr_actor r = user request)
          (CommentReaction_objects db) = []"
    by (auto simp: filter_empty_conv)
  from objects_get_empty [OF this] bg fl CommentReactionDestroy show ?thesis
    by (simp add: CommentReactionPublicViewSet_destroy_def)
next
  case (IssueVoteDestroy i)
  from no IssueVoteDestroy
  have "filter (\<lambda>v. v_workspace_slug v = slug \<and> v_project_id v = p \<and> v_issue_id v = i
                     \<and> v_actor v = user request) (IssueVote_objects db) = []"
    by (auto simp: filter_empty_conv)
  from objects_get_empty [OF this] IssueVoteDestroy show ?thesis
    by (simp add: IssueVotePublicViewSet_destroy_def)
qed

lemma partial_update_not_owner:
  assumes gate: "gate_passes (CommentDestroy i pk) slug p db"
    and no: "\<not> owns_target (CommentDestroy i pk) (user request) db"
  shows "IssueCommentPublicViewSet_partial_update is_valid request slug p i pk db
           = (Inl (DoesNotExist MIssueComment), db)"
proof -
  from gate_passes_board [OF gate] obtain b where
    bg: "ProjectDeployBoard_get slug p db = Inr b" and fl: "comments b" by auto
  from no
  have "filter (\<lambda>c. c_workspace_slug c = slug \<and> c_id c = pk \<and> c_actor c = user request)
          (IssueComment_objects db) = []"
    by (auto simp: filter_empty_conv)
  from objects_get_empty [OF this] bg fl show ?thesis
    by (simp add: IssueCommentPublicViewSet_partial_update_def)
qed

lemma destroy_never_forbidden:
  "fst (perform_destroy a request slug p db) \<noteq> Inr (Response body HTTP_403_FORBIDDEN)"
proof (cases a)
  case (CommentDestroy i pk)
  then show ?thesis
    by (auto simp: IssueCommentPublicViewSet_destroy_def Let_def status_defs split: sum.splits)
next
  case (IssueReactionDestroy i code)
  then show ?thesis
    by (auto simp: IssueReactionPublicViewSet_destroy_def Let_def status_defs
          split: sum.splits)
next
  case (CommentReactionDestroy c code)
  then show ?thesis
    by (auto simp: CommentReactionPublicViewSet_destroy_def Let_def status_defs
          split: sum.splits)
next
  case (IssueVoteDestroy i)
  then show ?thesis
    by (auto simp: IssueVotePublicViewSet_destroy_def Let_def status_defs split: sum.splits)
qed

lemma partial_update_never_forbidden:
  "fst (IssueCommentPublicViewSet_partial_update is_valid request slug p i pk db)
     \<noteq> Inr (Response body HTTP_403_FORBIDDEN)"
  by (auto simp: IssueCommentPublicViewSet_partial_update_def Let_def status_defs
        split: sum.splits)

lemma filter_id_removeAll:
  assumes "distinct (map f T)" and "r \<in> set T"
  shows "filter (\<lambda>x. f x \<noteq> f r) T = removeAll r T"
proof -
  have "\<And>x. x \<in> set T \<Longrightarrow> (f x \<noteq> f r) = (r \<noteq> x)"
    using assms by (metis distinct_map inj_onD)
  then have "filter (\<lambda>x. f x \<noteq> f r) T = filter (\<lambda>x. r \<noteq> x) T"
    by (intro filter_cong) auto
  then show ?thesis by (simp add: removeAll_filter_not_eq)
qed

lemma filter_removeAll_other:
  assumes "\<not> P r"
  shows "filter P (removeAll r T) = filter P T"
  using assms by (induction T) auto

lemma issue_reaction_destroy_own_row:
  assumes d: "distinct (map ir_id (IssueReaction_objects db))"
    and gate: "gate_passes (IssueReactionDestroy i code) slug p db"
    and found: "destroy_lookup (IssueReactionDestroy i code) request slug p db = Inr rid"
  shows "\<exists>r db'. IssueReactionPublicViewSet_destroy request slug p i code db
            = (Inr (Response NoBody HTTP_204_NO_CONTENT), db')
          \<and> r \<in> set (IssueReaction_objects db) \<and> ir_id r = rid \<and> ir_actor r = user request
          \<and> IssueReaction_objects db' = removeAll r (IssueReaction_objects db)
          \<and> filter (\<lambda>x. ir_actor x \<noteq> user request) (IssueReaction_objects db')
              = filter (\<lambda>x. ir_actor x \<noteq> user request) (IssueReaction_objects db)"
proof -
  from gate_passes_board [OF gate] obtain b where
    bg: "ProjectDeployBoard_get slug p db = Inr b" and fl: "reactions b" by auto
  from found obtain r where
    g: "objects_get MIssueReaction
          (\<lambda>r. ir_workspace_slug r = slug \<and> ir_issue_id r = i \<and> ir_reaction r = code
               \<and> ir_actor r = user request) (IssueReaction_objects db) = Inr r"
    and rid: "ir_id r = rid"
    by (cases "objects_get MIssueReaction
          (\<lambda>r. ir_workspace_slug r = slug \<and> ir_issue_id r = i \<and> ir_reaction r = code
               \<and> ir_actor r = user request) (IssueReaction_objects db)") auto
  from objects_get_member [OF g] have m: "r \<in> set (IssueReaction_objects db)"
    and own: "ir_actor r = user request" by simp_all
  let ?db' = "IssueReaction_delete r
                (issue_activity_delay
                   \<lparr>ev_type = ''issue_reaction.activity.deleted'', ev_requested_data = None,
                    ev_actor_id = user request, ev_issue_id = Some i, ev_project_id = p,
                    ev_current_instance =
                      Some [(''reaction'', JStr code), (''identifier'', JUuid (ir_id r))],
                    ev_epoch = now request\<rparr> db)"
  have res: "IssueReactionPublicViewSet_destroy request slug p i code db
               = (Inr (Response NoBody HTTP_204_NO_CONTENT), ?db')"
    using bg fl g by (simp add: IssueReactionPublicViewSet_destroy_def Let_def)
  have tbl: "IssueReaction_objects ?db' = removeAll r (IssueReaction_objects db)"
    using filter_id_removeAll [OF d m]
    by (simp add: IssueReaction_delete_def issue_activity_delay_def)
  have oth: "filter (\<lambda>x. ir_actor x \<noteq> user request) (IssueReaction_objects ?db')
              = filter (\<lambda>x. ir_actor x \<noteq> user request) (IssueReaction_objects db)"
    unfolding tbl using own by (simp add: filter_removeAll_other)
  from res m rid own tbl oth show ?thesis by blast
qed

lemma comment_reaction_destroy_own_row:
  assumes d: "distinct (map cr_id (CommentReaction_objects db))"
    and gate: "gate_passes (CommentReactionDestroy c code) slug p db"
    and found: "destroy_lookup (CommentReactionDestroy c code) request slug p db = Inr rid"
  shows "\<exists>r db'. CommentReactionPublicViewSet_destroy request slug p c code db
            = (Inr (Response NoBody HTTP_204_NO_CONTENT), db')
          \<and> r \<in> set (CommentReaction_objects db) \<and> cr_id r = rid \<and> cr_actor r = user request
          \<and> CommentReaction_objects db' = removeAll r (CommentReaction_objects db)
          \<and> filter (\<lambda>x. cr_actor x \<noteq> user request) (CommentReaction_objects db')
              = filter (\<lambda>x. cr_actor x \<noteq> user request) (CommentReaction_objects db)"
proof -
  from gate_passes_board [OF gate] obtain b where
    bg: "ProjectDeployBoard_get slug p db = Inr b" and fl: "reactions b" by auto
  from found obtain r where
    g: "objects_get MCommentReaction
          (\<lambda>r. cr_project_id r = p \<and> cr_workspace_slug r = slug \<and> cr_comment_id r = c
               \<and> cr_reaction r = code \<and> cr_actor r = user request)
          (CommentReaction_objects db) = Inr r"
    and rid: "cr_id r = rid"
    by (cases "objects_get MCommentReaction
          (\<lambda>r. cr_project_id r = p \<and> cr_workspace_slug r = slug \<and> cr_comment_id r = c
               \<and> cr_reaction r = code \<and> cr_actor r = user request)
          (CommentReaction_objects db)") auto
  from objects_get_member [OF g] have m: "r \<in> set (CommentReaction_objects db)"
    and own: "cr_actor r = user request" by simp_all
  let ?db' = "CommentReaction_delete r
                (issue_activity_delay
                   \<lparr>ev_type = ''comment_reaction.activity.deleted'', ev_requested_data = None,
                    ev_actor_id = user request, ev_issue_id = None, ev_project_id = p,
                    ev_current_instance =
                      Some [(''reaction'', JStr code), (''identifier'', JUuid (cr_id r)),
                            (''comment_id'', JUuid c)],
                    ev_epoch = now request\<rparr> db)"
  have res: "CommentReactionPublicViewSet_destroy request slug p c code db
               = (Inr (Response NoBody HTTP_204_NO_CONTENT), ?db')"
    using bg fl g by (simp add: CommentReactionPublicViewSet_destroy_def Let_def)
  have tbl: "CommentReaction_objects ?db' = removeAll r (CommentReaction_objects db)"
    using filter_id_removeAll [OF d m]
    by (simp add: CommentReaction_delete_def issue_activity_delay_def)
  have oth: "filter (\<lambda>x. cr_actor x \<noteq> user request) (CommentReaction_objects ?db')
              = filter (\<lambda>x. cr_actor x \<noteq> user request) (CommentReaction_objects db)"
    unfolding tbl using own by (simp add: filter_removeAll_other)
  from res m rid own tbl oth show ?thesis by blast
qed

section \<open>The claims\<close>

text \<open>
  Claim C1. Every vote create and vote delete request first resolves the deploy board of
  the (workspace, project) pair and fails with a capability-disabled error when the
  board's votes flag is false or the board is missing, instead of performing the mutation.
  The vote handlers do not do so: \<open>IssueVotePublicViewSet_create\<close> and
  \<open>IssueVotePublicViewSet_destroy\<close> never read the deploy board. On a project without
  a board, and on a board whose votes flag is false, the create request of user 6
  answers 201 and stores the vote; on a project without a board the delete request of
  user 5 answers 204 and removes the vote.
\<close>

theorem vote_handlers_skip_deploy_board_gate:
  "ProjectDeployBoard_objects db_unpublished = []
   \<and> fst (IssueVotePublicViewSet_create \<lparr>user = 6, data = [(''vote'', JInt (- 1))], now = 0\<rparr>
            ''acme'' 1 7 db_unpublished)
       = Inr (Response (Data [(''id'', JUuid 100), (''vote'', JInt (- 1)), (''actor'', JUuid 6),
                (''issue'', JUuid 7), (''project'', JUuid 1), (''workspace'', JStr ''acme'')])
              HTTP_201_CREATED)
   \<and> IssueVote_objects
         (snd (IssueVotePublicViewSet_create
                 \<lparr>user = 6, data = [(''vote'', JInt (- 1))], now = 0\<rparr>
                 ''acme'' 1 7 db_unpublished))
       = [\<lparr>v_id = 40, v_workspace_slug = ''acme'', v_project_id = 1, v_issue_id = 7,
           v_actor = 5, vote = - 1\<rparr>,
          \<lparr>v_id = 100, v_workspace_slug = ''acme'', v_project_id = 1, v_issue_id = 7,
           v_actor = 6, vote = - 1\<rparr>]
   \<and> map votes (ProjectDeployBoard_objects (db_board True True False)) = [False]
   \<and> fst (IssueVotePublicViewSet_create \<lparr>user = 6, data = [(''vote'', JInt (- 1))], now = 0\<rparr>
            ''acme'' 1 7 (db_board True True False))
       = Inr (Response (Data [(''id'', JUuid 100), (''vote'', JInt (- 1)), (''actor'', JUuid 6),
                (''issue'', JUuid 7), (''project'', JUuid 1), (''workspace'', JStr ''acme'')])
              HTTP_201_CREATED)
   \<and> IssueVote_objects
         (snd (IssueVotePublicViewSet_create
                 \<lparr>user = 6, data = [(''vote'', JInt (- 1))], now = 0\<rparr>
                 ''acme'' 1 7 (db_board True True False)))
       = [\<lparr>v_id = 40, v_workspace_slug = ''acme'', v_project_id = 1, v_issue_id = 7,
           v_actor = 5, vote = - 1\<rparr>,
          \<lparr>v_id = 100, v_workspace_slug = ''acme'', v_project_id = 1, v_issue_id = 7,
           v_actor = 6, vote = - 1\<rparr>]
   \<and> fst (IssueVotePublicViewSet_destroy \<lparr>user = 5, data = [], now = 0\<rparr>
            ''acme'' 1 7 db_unpublished)
       = Inr (Response NoBody HTTP_204_NO_CONTENT)
   \<and> IssueVote_objects
         (snd (IssueVotePublicViewSet_destroy \<lparr>user = 5, data = [], now = 0\<rparr>
                 ''acme'' 1 7 db_unpublished))
       = []"
  by (intro conjI; simp add: example_defs query_defs vote_defs status_defs Let_def)

text \<open>
  Claim C2. A successful comment partial update emits an event of type
  \<^verbatim>\<open>comment.activity.updated\<close> whose requested data is the raw payload and whose
  current instance is the serialized comment as it was before the update. The handler
  emits the type and the raw payload, but serializes the comment after
  \<^verbatim>\<open>serializer.save()\<close> has written it: on a comment whose body is \<open>old\<close>, updated
  to \<open>new\<close>, the write comes first and the current instance of the event carries
  \<open>new\<close>.
\<close>

theorem partial_update_snapshot_taken_after_save:
  "map c_comment_html (IssueComment_objects (db_board True True True)) = [''old'']
   \<and> fst (IssueCommentPublicViewSet_partial_update (\<lambda>d. True)
            \<lparr>user = 5, data = [(''comment_html'', JStr ''new'')], now = 9\<rparr>
            ''acme'' 1 7 20 (db_board True True True))
       = Inr (Response (Data [(''id'', JUuid 20), (''comment_html'', JStr ''new''),
                (''access'', JStr ''EXTERNAL''), (''actor'', JUuid 5), (''issue'', JUuid 7),
                (''project'', JUuid 1), (''workspace'', JStr ''acme''),
                (''created_at'', JInt 3)]) HTTP_200_OK)
   \<and> effects (snd (IssueCommentPublicViewSet_partial_update (\<lambda>d. True)
                     \<lparr>user = 5, data = [(''comment_html'', JStr ''new'')], now = 9\<rparr>
                     ''acme'' 1 7 20 (db_board True True True)))
       = [Update MIssueComment 20,
          Emit \<lparr>ev_type = ''comment.activity.updated'',
                ev_requested_data = Some [(''comment_html'', JStr ''new'')],
                ev_actor_id = 5, ev_issue_id = Some 7, ev_project_id = 1,
                ev_current_instance =
                  Some [(''id'', JUuid 20), (''comment_html'', JStr ''new''),
                        (''access'', JStr ''EXTERNAL''), (''actor'', JUuid 5),
                        (''issue'', JUuid 7), (''project'', JUuid 1),
                        (''workspace'', JStr ''acme''), (''created_at'', JInt 3)],
                ev_epoch = 9\<rparr>]"
  by (intro conjI; simp add: example_defs query_defs comment_defs status_defs Let_def)

text \<open>
  Claim C3. A (workspace, project) pair without a deploy board is not publicly reachable:
  every list is empty, every mutating endpoint errors, and no endpoint returns issue data
  of the project. The single-issue retrieve endpoint reads no deploy board: on the
  project without a board it answers 200 with the issue, where the listing endpoint
  answers 404 and the comment handler raises; the vote handler deletes as well.
\<close>

theorem unpublished_project_serves_issue:
  "deploy_boards_of ''acme'' 1 db_unpublished = []
   \<and> IssueRetrievePublicEndpoint_get ''acme'' 1 7 db_unpublished
       = Inr (Response (Data [(''id'', JUuid 7), (''project'', JUuid 1),
                (''workspace'', JStr ''acme''), (''is_draft'', JBool False)]) HTTP_200_OK)
   \<and> ProjectIssuesPublicEndpoint_get (all_issues_env db_unpublished) ''acme'' 1 db_unpublished
       = Inr (Response (ErrorBody ''Project is not published'') HTTP_404_NOT_FOUND)
   \<and> fst (IssueCommentPublicViewSet_destroy \<lparr>user = 5, data = [], now = 0\<rparr>
            ''acme'' 1 7 20 db_unpublished)
       = Inl (DoesNotExist MProjectDeployBoard)
   \<and> fst (IssueVotePublicViewSet_destroy \<lparr>user = 5, data = [], now = 0\<rparr>
            ''acme'' 1 7 db_unpublished)
       = Inr (Response NoBody HTTP_204_NO_CONTENT)"
  by (intro conjI;
      simp add: example_defs query_defs listing_defs comment_defs vote_defs status_defs Let_def)

text \<open>
  Claim C4. With a published board, the rows of the project issue listing satisfy
  project = project_id, workspace = slug and is_draft = true together with the parsed
  filters, and each carries the counters link_count, attachment_count and
  sub_issues_count, zero when there are no children. The handler builds that queryset and
  then rebinds \<^verbatim>\<open>issue_queryset\<close> to \<^verbatim>\<open>self.get_queryset().filter(**filters)\<close>,
  so the annotated queryset is never used: with a base queryset of all issues, the page
  holds an issue that is no draft and an issue of another project, none with a counter,
  while the annotated queryset is empty; with a base view that has no
  \<^verbatim>\<open>get_queryset\<close> the handler raises.
\<close>

theorem listing_discards_annotated_queryset:
  "length (deploy_boards_of ''acme'' 1 (db_board True True True)) = 1
   \<and> annotated_issue_queryset (all_issues_env (db_board True True True)) ''acme'' 1
         (db_board True True True) = []
   \<and> ProjectIssuesPublicEndpoint_get (all_issues_env (db_board True True True)) ''acme'' 1
         (db_board True True True)
       = Inr (Response
           (Page [\<lparr>row_issue = \<lparr>i_id = 7, i_workspace_slug = ''acme'', i_project_id = 1,
                                 i_is_draft = False, i_archived_at = None, i_parent = None\<rparr>,
                    cycle_id = None, link_count = None, attachment_count = None,
                    sub_issues_count = None\<rparr>,
                  \<lparr>row_issue = \<lparr>i_id = 8, i_workspace_slug = ''other'', i_project_id = 2,
                                 i_is_draft = True, i_archived_at = None, i_parent = None\<rparr>,
                    cycle_id = None, link_count = None, attachment_count = None,
                    sub_issues_count = None\<rparr>])
           HTTP_200_OK)
   \<and> ProjectIssuesPublicEndpoint_get
         ((all_issues_env (db_board True True True))\<lparr>get_queryset := Inl AttributeError\<rparr>)
         ''acme'' 1 (db_board True True True)
       = Inl AttributeError"
  by (intro conjI; simp add: example_defs listing_defs status_defs Let_def)

text \<open>
  Claim C5. A list request on comments, issue reactions, comment reactions or votes for
  which the deploy board is missing, or exists with the relevant capability flag false,
  yields the empty sequence and no error, in both cases. The list of a view set is its
  \<open>get_queryset\<close>, handed to the pagination of the base view set.
\<close>

theorem list_without_capability_is_empty:
  "(deploy_boards_of slug project_id db = []
      \<or> (\<exists>b. deploy_boards_of slug project_id db = [b] \<and> \<not> comments b)
    \<longrightarrow> IssueCommentPublicViewSet_get_queryset filter_queryset user_id slug project_id
          issue_id db = Inr [])
   \<and> (deploy_boards_of slug project_id db = []
      \<or> (\<exists>b. deploy_boards_of slug project_id db = [b] \<and> \<not> reactions b)
    \<longrightarrow> IssueReactionPublicViewSet_get_queryset slug project_id issue_id db = Inr []
      \<and> CommentReactionPublicViewSet_get_queryset slug project_id comment_id db = Inr [])
   \<and> (deploy_boards_of slug project_id db = []
      \<or> (\<exists>b. deploy_boards_of slug project_id db = [b] \<and> \<not> votes b)
    \<longrightarrow> IssueVotePublicViewSet_get_queryset slug project_id issue_id db = Inr [])"
proof (intro conjI impI)
  assume "deploy_boards_of slug project_id db = []
      \<or> (\<exists>b. deploy_boards_of slug project_id db = [b] \<and> \<not> comments b)"
  then show "IssueCommentPublicViewSet_get_queryset filter_queryset user_id slug project_id
          issue_id db = Inr []"
    by (auto simp: IssueCommentPublicViewSet_get_queryset_def board_get_missing
          board_get_single)
next
  assume h: "deploy_boards_of slug project_id db = []
      \<or> (\<exists>b. deploy_boards_of slug project_id db = [b] \<and> \<not> reactions b)"
  then show "IssueReactionPublicViewSet_get_queryset slug project_id issue_id db = Inr []"
    by (auto simp: IssueReactionPublicViewSet_get_queryset_def board_get_missing
          board_get_single)
  from h show "CommentReactionPublicViewSet_get_queryset slug project_id comment_id db = Inr []"
    by (auto simp: CommentReactionPublicViewSet_get_queryset_def board_get_missing
          board_get_single)
next
  assume "deploy_boards_of slug project_id db = []
      \<or> (\<exists>b. deploy_boards_of slug project_id db = [b] \<and> \<not> votes b)"
  then show "IssueVotePublicViewSet_get_queryset slug project_id issue_id db = Inr []"
    by (auto simp: IssueVotePublicViewSet_get_queryset_def board_get_missing
          board_get_single)
qed

theorem list_without_capability_is_empty_witness:
  "deploy_boards_of ''acme'' 1 db_unpublished = []
   \<and> map comments (deploy_boards_of ''acme'' 1 (db_board False False False)) = [False]
   \<and> map reactions (deploy_boards_of ''acme'' 1 (db_board False False False)) = [False]
   \<and> map votes (deploy_boards_of ''acme'' 1 (db_board False False False)) = [False]
   \<and> length (IssueComment_objects db_unpublished) = 1
   \<and> IssueCommentPublicViewSet_get_queryset (\<lambda>q. q) None ''acme'' 1 7 db_unpublished = Inr []
   \<and> IssueReactionPublicViewSet_get_queryset ''acme'' 1 7 db_unpublished = Inr []
   \<and> CommentReactionPublicViewSet_get_queryset ''acme'' 1 20 db_unpublished = Inr []
   \<and> IssueVotePublicViewSet_get_queryset ''acme'' 1 7 db_unpublished = Inr []
   \<and> IssueCommentPublicViewSet_get_queryset (\<lambda>q. q) None ''acme'' 1 7
         (db_board False False False) = Inr []
   \<and> IssueReactionPublicViewSet_get_queryset ''acme'' 1 7 (db_board False False False) = Inr []
   \<and> CommentReactionPublicViewSet_get_queryset ''acme'' 1 20 (db_board False False False)
       = Inr []
   \<and> IssueVotePublicViewSet_get_queryset ''acme'' 1 7 (db_board False False False) = Inr []"
proof -
  have m: "deploy_boards_of ''acme'' 1 db_unpublished = []"
    by (simp add: deploy_boards_of_def example_defs)
  have b: "deploy_boards_of ''acme'' 1 (db_board False False False)
       = [\<lparr>b_workspace_slug = ''acme'', b_project_id = 1, comments = False,
            reactions = False, votes = False\<rparr>]"
    by (simp add: deploy_boards_of_def example_defs)
  have n: "length (IssueComment_objects db_unpublished) = 1"
    by (simp add: example_defs)
  from list_without_capability_is_empty
         [of "''acme''" 1 db_unpublished "\<lambda>q. q" None 7 20]
       list_without_capability_is_empty
         [of "''acme''" 1 "db_board False False False" "\<lambda>q. q" None 7 20]
       m b n
  show ?thesis by simp
qed






text \<open>
  Claim C8. An update or delete request on a comment, a reaction or a vote by an identity
  that does not own the targeted row is answered as not found and never as forbidden,
  because the lookup itself filters on the requesting identity: once the deploy board
  lets the request pass, the handler raises the \<^verbatim>\<open>DoesNotExist\<close> of the model and
  changes nothing, and no update or delete handler ever answers 403. In particular,
  deleting a reaction by its natural key (issue or comment, and reaction code) removes
  the caller's own row and leaves the rows of every other actor as they were, also
  when they carry the same reaction code.
\<close>

theorem non_owner_update_delete_is_not_found:
  "(gate_passes a slug project_id db \<and> \<not> owns_target a (user request) db
    \<longrightarrow> perform_destroy a request slug project_id db
          = (Inl (DoesNotExist (destroyed_model a)), db))
   \<and> (gate_passes (CommentDestroy issue_id pk) slug project_id db
      \<and> \<not> owns_target (CommentDestroy issue_id pk) (user request) db
    \<longrightarrow> IssueCommentPublicViewSet_partial_update is_valid request slug project_id issue_id pk db
          = (Inl (DoesNotExist MIssueComment), db))
   \<and> fst (perform_destroy a request slug project_id db)
       \<noteq> Inr (Response body HTTP_403_FORBIDDEN)
   \<and> fst (IssueCommentPublicViewSet_partial_update is_valid request slug project_id issue_id
            pk db)
       \<noteq> Inr (Response body HTTP_403_FORBIDDEN)
   \<and> (distinct (map ir_id (IssueReaction_objects db))
      \<and> gate_passes (IssueReactionDestroy issue_id reaction_code) slug project_id db
      \<and> destroy_lookup (IssueReactionDestroy issue_id reaction_code) request slug project_id db
          = Inr rid
    \<longrightarrow> (\<exists>r db'. IssueReactionPublicViewSet_destroy request slug project_id issue_id
                     reaction_code db
                   = (Inr (Response NoBody HTTP_204_NO_CONTENT), db')
               \<and> r \<in> set (IssueReaction_objects db) \<and> ir_id r = rid
               \<and> ir_actor r = user request
               \<and> IssueReaction_objects db' = removeAll r (IssueReaction_objects db)
               \<and> filter (\<lambda>x. ir_actor x \<noteq> user request) (IssueReaction_objects db')
                   = filter (\<lambda>x. ir_actor x \<noteq> user request) (IssueReaction_objects db)))
   \<and> (distinct (map cr_id (CommentReaction_objects db))
      \<and> gate_passes (CommentReactionDestroy comment_id reaction_code) slug project_id db
      \<and> destroy_lookup (CommentReactionDestroy comment_id reaction_code) request slug
            project_id db
          = Inr cid
    \<longrightarrow> (\<exists>r db'. CommentReactionPublicViewSet_destroy request slug project_id comment_id
                     reaction_code db
                   = (Inr (Response NoBody HTTP_204_NO_CONTENT), db')
               \<and> r \<in> set (CommentReaction_objects db) \<and> cr_id r = cid
               \<and> cr_actor r = user request
               \<and> CommentReaction_objects db' = removeAll r (CommentReaction_objects db)
               \<and> filter (\<lambda>x. cr_actor x \<noteq> user request) (CommentReaction_objects db')
                   = filter (\<lambda>x. cr_actor x \<noteq> user request) (CommentReaction_objects db)))"
proof (intro conjI impI)
  assume "gate_passes a slug project_id db \<and> \<not> owns_target a (user request) db"
  then show "perform_destroy a request slug project_id db
          = (Inl (DoesNotExist (destroyed_model a)), db)"
    by (simp add: destroy_not_owner)
next
  assume "gate_passes (CommentDestroy issue_id pk) slug project_id db
      \<and> \<not> owns_target (CommentDestroy issue_id pk) (user request) db"
  then show "IssueCommentPublicViewSet_partial_update is_valid request slug project_id
               issue_id pk db
          = (Inl (DoesNotExist MIssueComment), db)"
    by (intro partial_update_not_owner) simp_all
next
  show "fst (perform_destroy a request slug project_id db)
       \<noteq> Inr (Response body HTTP_403_FORBIDDEN)"
    by (rule destroy_never_forbidden)
next
  show "fst (IssueCommentPublicViewSet_partial_update is_valid request slug project_id issue_id
            pk db)
       \<noteq> Inr (Response body HTTP_403_FORBIDDEN)"
    by (rule partial_update_never_forbidden)
next
  assume "distinct (map ir_id (IssueReaction_objects db))
      \<and> gate_passes (IssueReactionDestroy issue_id reaction_code) slug project_id db
      \<and> destroy_lookup (IssueReactionDestroy issue_id reaction_code) request slug project_id db
          = Inr rid"
  then show "\<exists>r db'. IssueReactionPublicViewSet_destroy request slug project_id issue_id
                     reaction_code db
                   = (Inr (Response NoBody HTTP_204_NO_CONTENT), db')
               \<and> r \<in> set (IssueReaction_objects db) \<and> ir_id r = rid
               \<and> ir_actor r = user request
               \<and> IssueReaction_objects db' = removeAll r (IssueReaction_objects db)
               \<and> filter (\<lambda>x. ir_actor x \<noteq> user request) (IssueReaction_objects db')
                   = filter (\<lambda>x. ir_actor x \<noteq> user request) (IssueReaction_objects db)"
    by (intro issue_reaction_destroy_own_row) simp_all
next
  assume "distinct (map cr_id (CommentReaction_objects db))
      \<and> gate_passes (CommentReactionDestroy comment_id reaction_code) slug project_id db
      \<and> destroy_lookup (CommentReactionDestroy comment_id reaction_code) request slug
            project_id db
          = Inr cid"
  then show "\<exists>r db'. CommentReactionPublicViewSet_destroy request slug project_id comment_id
                     reaction_code db
                   = (Inr (Response NoBody HTTP_204_NO_CONTENT), db')
               \<and> r \<in> set (CommentReaction_objects db) \<and> cr_id r = cid
               \<and> cr_actor r = user request
               \<and> CommentReaction_objects db' = removeAll r (CommentReaction_objects db)
               \<and> filter (\<lambda>x. cr_actor x \<noteq> user request) (CommentReaction_objects db')
                   = filter (\<lambda>x. cr_actor x \<noteq> user request) (CommentReaction_objects db)"
    by (intro comment_reaction_destroy_own_row) simp_all
qed

theorem non_owner_update_delete_is_not_found_witness:
  "perform_destroy (CommentDestroy 7 20) \<lparr>user = 6, data = [], now = 2\<rparr> ''acme'' 1
       (db_board True True True)
     = (Inl (DoesNotExist MIssueComment), db_board True True True)
   \<and> IssueCommentPublicViewSet_partial_update (\<lambda>d. True)
       \<lparr>user = 6, data = [(''comment_html'', JStr ''mine'')], now = 2\<rparr> ''acme'' 1 7 20
       (db_board True True True)
     = (Inl (DoesNotExist MIssueComment), db_board True True True)
   \<and> perform_destroy (IssueReactionDestroy 7 ''+1'') \<lparr>user = 9, data = [], now = 2\<rparr> ''acme'' 1
       (db_board True True True)
     = (Inl (DoesNotExist MIssueReaction), db_board True True True)
   \<and> perform_destroy (CommentReactionDestroy 20 ''+1'') \<lparr>user = 6, data = [], now = 2\<rparr> ''acme'' 1
       (db_board True True True)
     = (Inl (DoesNotExist MCommentReaction), db_board True True True)
   \<and> perform_destroy (IssueVoteDestroy 7) \<lparr>user = 6, data = [], now = 2\<rparr> ''acme'' 1
       (db_board True True True)
     = (Inl (DoesNotExist MIssueVote), db_board True True True)
   \<and> map ir_actor (IssueReaction_objects (db_board True True True)) = [5, 6]
   \<and> map ir_actor
         (IssueReaction_objects
            (snd (IssueReactionPublicViewSet_destroy \<lparr>user = 6, data = [], now = 2\<rparr> ''acme'' 1 7
                    ''+1'' (db_board True True True))))
       = [5]"
proof -
  let ?db = "db_board True True True"
  let ?r6 = "\<lparr>user = 6, data = [], now = 2\<rparr>"
  let ?u6 = "\<lparr>user = 6, data = [(''comment_html'', JStr ''mine'')], now = 2\<rparr>"
  let ?r9 = "\<lparr>user = 9, data = [], now = 2\<rparr>"
  have gc: "gate_passes (CommentDestroy 7 20) ''acme'' 1 ?db"
    and gi: "gate_passes (IssueReactionDestroy 7 ''+1'') ''acme'' 1 ?db"
    and gr: "gate_passes (CommentReactionDestroy 20 ''+1'') ''acme'' 1 ?db"
    and gv: "gate_passes (IssueVoteDestroy 7) ''acme'' 1 ?db"
    by (simp_all add: example_defs query_defs)
  have oc: "\<not> owns_target (CommentDestroy 7 20) (user ?r6) ?db"
    and ou: "\<not> owns_target (CommentDestroy 7 20) (user ?u6) ?db"
    and oi: "\<not> owns_target (IssueReactionDestroy 7 ''+1'') (user ?r9) ?db"
    and orr: "\<not> owns_target (CommentReactionDestroy 20 ''+1'') (user ?r6) ?db"
    and ov: "\<not> owns_target (IssueVoteDestroy 7) (user ?r6) ?db"
    by (simp_all add: example_defs)
  have d: "distinct (map ir_id (IssueReaction_objects ?db))"
    by (simp add: example_defs)
  have f: "destroy_lookup (IssueReactionDestroy 7 ''+1'') ?r6 ''acme'' 1 ?db = Inr 31"
    by (simp add: example_defs query_defs)
  have tbl: "IssueReaction_objects ?db
      = [\<lparr>ir_id = 30, ir_workspace_slug = ''acme'', ir_project_id = 1,
          ir_issue_id = 7, ir_actor = 5, ir_reaction = ''+1'', ir_created_at = 4\<rparr>,
         \<lparr>ir_id = 31, ir_workspace_slug = ''acme'', ir_project_id = 1,
          ir_issue_id = 7, ir_actor = 6, ir_reaction = ''+1'', ir_created_at = 5\<rparr>]"
    by (simp add: example_defs)
  from non_owner_update_delete_is_not_found
         [of "CommentDestroy 7 20" "''acme''" 1 ?db ?r6] gc oc
  have a1: "perform_destroy (CommentDestroy 7 20) ?r6 ''acme'' 1 ?db
              = (Inl (DoesNotExist MIssueComment), ?db)"
    by simp
  from non_owner_update_delete_is_not_found
         [of "CommentDestroy 7 20" "''acme''" 1 ?db ?u6 7 20 "\<lambda>d. True"] gc ou
  have a2: "IssueCommentPublicViewSet_partial_update (\<lambda>d. True) ?u6 ''acme'' 1 7 20 ?db
              = (Inl (DoesNotExist MIssueComment), ?db)"
    by blast
  from non_owner_update_delete_is_not_found
         [of "IssueReactionDestroy 7 ''+1''" "''acme''" 1 ?db ?r9] gi oi
  have a3: "perform_destroy (IssueReactionDestroy 7 ''+1'') ?r9 ''acme'' 1 ?db
              = (Inl (DoesNotExist MIssueReaction), ?db)"
    by simp
  from non_owner_update_delete_is_not_found
         [of "CommentReactionDestroy 20 ''+1''" "''acme''" 1 ?db ?r6] gr orr
  have a4: "perform_destroy (CommentReactionDestroy 20 ''+1'') ?r6 ''acme'' 1 ?db
              = (Inl (DoesNotExist MCommentReaction), ?db)"
    by simp
  from non_owner_update_delete_is_not_found
         [of "IssueVoteDestroy 7" "''acme''" 1 ?db ?r6] gv ov
  have a5: "perform_destroy (IssueVoteDestroy 7) ?r6 ''acme'' 1 ?db
              = (Inl (DoesNotExist MIssueVote), ?db)"
    by simp
  from non_owner_update_delete_is_not_found
         [of "IssueVoteDestroy 7" "''acme''" 1 ?db ?r6 7 20 "\<lambda>d. True" NoBody "''+1''" 31]
       d gi f
  obtain r db' where
    h: "IssueReactionPublicViewSet_destroy ?r6 ''acme'' 1 7 ''+1'' ?db
          = (Inr (Response NoBody HTTP_204_NO_CONTENT), db')"
    and o: "filter (\<lambda>x. ir_actor x \<noteq> user ?r6) (IssueReaction_objects db')
              = filter (\<lambda>x. ir_actor x \<noteq> user ?r6) (IssueReaction_objects ?db)"
    and m: "r \<in> set (IssueReaction_objects ?db)" and i: "ir_id r = 31"
    and t: "IssueReaction_objects db' = removeAll r (IssueReaction_objects ?db)"
    by blast
  from m i tbl have "r = \<lparr>ir_id = 31, ir_workspace_slug = ''acme'', ir_project_id = 1,
          ir_issue_id = 7, ir_actor = 6, ir_reaction = ''+1'', ir_created_at = 5\<rparr>"
    by auto
  with t tbl have "map ir_actor (IssueReaction_objects db') = [5]" by simp
  with h have a6: "map ir_actor
         (IssueReaction_objects
            (snd (IssueReactionPublicViewSet_destroy ?r6 ''acme'' 1 7 ''+1'' ?db))) = [5]"
    by simp
  have a0: "map ir_actor (IssueReaction_objects ?db) = [5, 6]"
    by (simp add: tbl)
  from a1 a2 a3 a4 a5 a0 a6 show ?thesis by blast
qed

text \<open>
  Claim C9. For every successful delete of a comment, a reaction or a vote, the event of
  type \<^verbatim>\<open><resource>.activity.deleted\<close> is emitted before the row is removed, and its
  current instance is the snapshot of the row being deleted, which carries the primary
  key of the row; the response is 204 without a body. Once the row is found (and, for
  comments and reactions, the deploy board lets the request pass), the deletion is
  unconditional.
\<close>

theorem delete_emits_snapshot_then_removes_row:
  "(perform_destroy a request slug project_id db
      = (Inr (Response bd HTTP_204_NO_CONTENT), db')
    \<longrightarrow> bd = NoBody
       \<and> (\<exists>rid ev snap.
             destroy_lookup a request slug project_id db = Inr rid
           \<and> effects db' = effects db @ [Emit ev, Delete (destroyed_model a) rid]
           \<and> ev_type ev = resource_name a @ ''.activity.deleted''
           \<and> ev_current_instance ev = Some snap
           \<and> destroy_snapshot a request slug project_id db = Inr snap
           \<and> map_of snap (identifier_key a) = Some (JUuid rid)
           \<and> rid \<in> set (row_ids (destroyed_model a) db)
           \<and> row_ids (destroyed_model a) db'
               = filter (\<lambda>x. x \<noteq> rid) (row_ids (destroyed_model a) db)))
   \<and> (gate_passes a slug project_id db
      \<and> destroy_lookup a request slug project_id db = Inr found
    \<longrightarrow> fst (perform_destroy a request slug project_id db)
          = Inr (Response NoBody HTTP_204_NO_CONTENT))"
proof (rule conjI)
  show "perform_destroy a request slug project_id db
      = (Inr (Response bd HTTP_204_NO_CONTENT), db')
    \<longrightarrow> bd = NoBody
       \<and> (\<exists>rid ev snap.
             destroy_lookup a request slug project_id db = Inr rid
           \<and> effects db' = effects db @ [Emit ev, Delete (destroyed_model a) rid]
           \<and> ev_type ev = resource_name a @ ''.activity.deleted''
           \<and> ev_current_instance ev = Some snap
           \<and> destroy_snapshot a request slug project_id db = Inr snap
           \<and> map_of snap (identifier_key a) = Some (JUuid rid)
           \<and> rid \<in> set (row_ids (destroyed_model a) db)
           \<and> row_ids (destroyed_model a) db'
               = filter (\<lambda>x. x \<noteq> rid) (row_ids (destroyed_model a) db))"
    by (rule impI) (rule destroy_success)
  show "gate_passes a slug project_id db
      \<and> destroy_lookup a request slug project_id db = Inr found
    \<longrightarrow> fst (perform_destroy a request slug project_id db)
          = Inr (Response NoBody HTTP_204_NO_CONTENT)"
    by (rule impI, erule conjE, rule destroy_unconditional)
qed

theorem delete_emits_snapshot_then_removes_row_witness:
  "gate_passes (IssueReactionDestroy 7 ''+1'') ''acme'' 1 (db_board True True True)
   \<and> destroy_lookup (IssueReactionDestroy 7 ''+1'') \<lparr>user = 5, data = [], now = 2\<rparr> ''acme'' 1
         (db_board True True True) = Inr 30
   \<and> perform_destroy (IssueReactionDestroy 7 ''+1'') \<lparr>user = 5, data = [], now = 2\<rparr> ''acme'' 1
         (db_board True True True)
       = (Inr (Response NoBody HTTP_204_NO_CONTENT),
          snd (perform_destroy (IssueReactionDestroy 7 ''+1'') \<lparr>user = 5, data = [], now = 2\<rparr>
                 ''acme'' 1 (db_board True True True)))
   \<and> (\<exists>ev.
         effects (snd (perform_destroy (IssueReactionDestroy 7 ''+1'')
                         \<lparr>user = 5, data = [], now = 2\<rparr> ''acme'' 1 (db_board True True True)))
           = [Emit ev, Delete MIssueReaction 30]
       \<and> ev_type ev = ''issue_reaction.activity.deleted''
       \<and> ev_current_instance ev
           = Some [(''reaction'', JStr ''+1''), (''identifier'', JUuid 30)])
   \<and> row_ids MIssueReaction
         (snd (perform_destroy (IssueReactionDestroy 7 ''+1'')
                 \<lparr>user = 5, data = [], now = 2\<rparr> ''acme'' 1 (db_board True True True)))
       = [31]"
proof -
  let ?a = "IssueReactionDestroy 7 ''+1''"
  let ?r = "\<lparr>user = 5, data = [], now = 2\<rparr>"
  let ?db = "db_board True True True"
  let ?o = "perform_destroy ?a ?r ''acme'' 1 ?db"
  note inst = delete_emits_snapshot_then_removes_row
               [of ?a ?r "''acme''" 1 ?db NoBody "snd ?o" 30]
  have gate: "gate_passes ?a ''acme'' 1 ?db"
    by (simp add: example_defs query_defs)
  have found: "destroy_lookup ?a ?r ''acme'' 1 ?db = Inr 30"
    by (simp add: example_defs query_defs)
  have snap0: "destroy_snapshot ?a ?r ''acme'' 1 ?db
                 = Inr [(''reaction'', JStr ''+1''), (''identifier'', JUuid 30)]"
    by (simp add: example_defs query_defs)
  from inst gate found have "fst ?o = Inr (Response NoBody HTTP_204_NO_CONTENT)"
    by blast
  then have h: "?o = (Inr (Response NoBody HTTP_204_NO_CONTENT), snd ?o)"
    by (metis prod.collapse)
  with inst obtain rid ev snap where
    l: "destroy_lookup ?a ?r ''acme'' 1 ?db = Inr rid"
    and e: "effects (snd ?o) = effects ?db @ [Emit ev, Delete (destroyed_model ?a) rid]"
    and t: "ev_type ev = resource_name ?a @ ''.activity.deleted''"
    and c: "ev_current_instance ev = Some snap"
    and s: "destroy_snapshot ?a ?r ''acme'' 1 ?db = Inr snap"
    and i: "row_ids (destroyed_model ?a) (snd ?o)
               = filter (\<lambda>x. x \<noteq> rid) (row_ids (destroyed_model ?a) ?db)"
    by blast
  from l found have rid: "rid = 30" by simp
  from s snap0 have snap: "snap = [(''reaction'', JStr ''+1''), (''identifier'', JUuid 30)]"
    by simp
  have e0: "effects ?db = []" by (simp add: example_defs)
  have ids: "row_ids MIssueReaction ?db = [30, 31]" by (simp add: example_defs)
  from e t c e0 rid snap
  have ex: "\<exists>ev. effects (snd ?o) = [Emit ev, Delete MIssueReaction 30]
       \<and> ev_type ev = ''issue_reaction.activity.deleted''
       \<and> ev_current_instance ev
           = Some [(''reaction'', JStr ''+1''), (''identifier'', JUuid 30)]"
    by (intro exI [of _ ev]) simp
  from i rid ids have "row_ids MIssueReaction (snd ?o) = [31]" by simp
  with gate found h ex show ?thesis by blast
qed



end
